theory Spec2Isabelle
  imports Main "HOL-Library.Word"
begin

unbundle bit_operations_syntax

section \<open>Machine types and the collaborators of the GPU register file\<close>

text \<open>
  The development embeds \<^verbatim>\<open>src/core/hw/gpu.cpp\<close>: the register file with its
  \<^verbatim>\<open>Read\<close> and \<^verbatim>\<open>Write\<close> templates, the memory-fill, display-transfer and
  command-list triggers, and the vertical-blank callback.

  Unsigned C++ integers are words of their width, so that \<open>+\<close>, \<open>-\<close> and \<open>*\<close> wrap.
  Host pointers (\<^verbatim>\<open>u8*\<close>) are natural numbers: addresses of a flat byte memory.
\<close>

type_synonym u8 = "8 word"
type_synonym u16 = "16 word"
type_synonym u32 = "32 word"
type_synonym u64 = "64 word"
type_synonym s32 = "32 word"

text \<open>The identifiers passed to \<^verbatim>\<open>GSP_GPU::SignalInterrupt\<close> in this file.\<close>

datatype InterruptId = PSC0 | PSC1 | PDC0 | PDC1 | PPF

text \<open>
  Every call that leaves the file is recorded, in program order, as an event: the logging
  macros, \<^verbatim>\<open>UNIMPLEMENTED()\<close>, the rasterizer cache hooks, the interrupt sink, the debugger
  and tracer hooks, the command processor, the renderer and the scheduler. \<^verbatim>\<open>Memcpy dst src n\<close>
  records one \<^verbatim>\<open>std::memcpy\<close> of the texture-copy loop; \<^verbatim>\<open>Pixel input_x input_y x y\<close>
  records the coordinates one iteration of the display-transfer loop works with (source
  position and destination position, the latter after the vertical flip).
\<close>

datatype event =
    LOG_ERROR
  | LOG_CRITICAL
  | LOG_TRACE
  | LOG_DEBUG
  | UNIMPLEMENTED
  | RasterizerFlushRegion u32 u32
  | RasterizerFlushAndInvalidateRegion u32 u32
  | SignalInterrupt InterruptId
  | OnEvent_IncomingDisplayTransfer
  | MemoryAccessed nat nat u32
  | ProcessCommandList nat u32
  | RegisterWritten u32 u32
  | Memcpy nat nat u32
  | Pixel u32 u32 u32 u32
  | SwapBuffers
  | RegisterEvent
  | ScheduleEvent u64

text \<open>
  The globals of the namespace: the register file \<^verbatim>\<open>g_regs\<close> seen as an array of 32-bit
  cells, \<^verbatim>\<open>g_skip_frame\<close>, \<^verbatim>\<open>frame_count\<close>, \<^verbatim>\<open>last_skip_frame\<close>; together with the
  emulated physical memory the engines write to and the events emitted so far.
\<close>

record gpu =
  g_regs :: "nat \<Rightarrow> u32"
  g_skip_frame :: bool
  frame_count :: u64
  last_skip_frame :: bool
  memory :: "nat \<Rightarrow> u8"
  events :: "event list"

definition emit :: "event list \<Rightarrow> gpu \<Rightarrow> gpu" where
  "emit es s = s\<lparr>events := events s @ es\<rparr>"

section \<open>The vertical-blank callback\<close>

text \<open>\<^verbatim>\<open>const u64 frame_ticks = 268123480ull / 60;\<close>\<close>

definition frame_ticks :: u64 where
  "frame_ticks = 268123480 div 60"

text \<open>
  \<^verbatim>\<open>VBlankCallback(u64 userdata, int cycles_late)\<close>. \<^verbatim>\<open>Settings::values.frame_skip\<close> is
  declared outside this file and is a parameter here, an \<^verbatim>\<open>int\<close>; in
  \<^verbatim>\<open>frame_count & frame_skip\<close> and in \<^verbatim>\<open>frame_ticks - cycles_late\<close> the \<^verbatim>\<open>int\<close> operand is
  converted to \<^verbatim>\<open>u64\<close> (sign extension, \<open>scast\<close>) and the arithmetic is modulo \<open>2^64\<close>.
  The C++ expression \<^verbatim>\<open>(frame_skip != 1) ^ last_skip_frame\<close> on two booleans is true when
  they differ.

  \<open>vblank_swap\<close> is the condition of the \<^verbatim>\<open>if\<close> that guards \<^verbatim>\<open>SwapBuffers()\<close>, evaluated
  after the three assignments at the head of the callback; \<open>vblank_delay\<close> is the first
  argument of the call of \<^verbatim>\<open>CoreTiming::ScheduleEvent\<close>.
\<close>

definition vblank_head :: "s32 \<Rightarrow> gpu \<Rightarrow> gpu" where
  "vblank_head frame_skip s =
     (let s1 = s\<lparr>frame_count := frame_count s + 1\<rparr>;
          s2 = s1\<lparr>last_skip_frame := g_skip_frame s1\<rparr>
      in s2\<lparr>g_skip_frame := ((frame_count s2 AND scast frame_skip) \<noteq> 0)\<rparr>)"

definition vblank_swap :: "s32 \<Rightarrow> gpu \<Rightarrow> bool" where
  "vblank_swap frame_skip s \<longleftrightarrow>
     ((((frame_skip \<noteq> 1) \<noteq> last_skip_frame s) \<and> last_skip_frame s \<noteq> g_skip_frame s)
      \<or> frame_skip = 0)"

definition vblank_delay :: "s32 \<Rightarrow> u64" where
  "vblank_delay cycles_late = frame_ticks - scast cycles_late"

definition vblank_events :: "s32 \<Rightarrow> s32 \<Rightarrow> gpu \<Rightarrow> event list" where
  "vblank_events frame_skip cycles_late s =
     (if vblank_swap frame_skip (vblank_head frame_skip s) then [SwapBuffers] else [])
     @ [SignalInterrupt PDC0, SignalInterrupt PDC1]
     @ [ScheduleEvent (vblank_delay cycles_late)]"

definition VBlankCallback :: "s32 \<Rightarrow> s32 \<Rightarrow> gpu \<Rightarrow> gpu" where
  "VBlankCallback frame_skip cycles_late s =
     emit (vblank_events frame_skip cycles_late s) (vblank_head frame_skip s)"

text \<open>
  A run of the scheduler: the callback fires once for each element of the list, which gives
  the \<^verbatim>\<open>cycles_late\<close> argument of that firing.
\<close>

fun firings :: "s32 \<Rightarrow> s32 list \<Rightarrow> gpu \<Rightarrow> gpu" where
  "firings frame_skip [] s = s"
| "firings frame_skip (late # lates) s =
     firings frame_skip lates (VBlankCallback frame_skip late s)"

text \<open>
  Whether firing number \<open>k\<close> of the run (counted from 0, so \<open>k = 0\<close> is the first firing)
  calls \<^verbatim>\<open>SwapBuffers\<close>.
\<close>

definition swaps_at :: "s32 \<Rightarrow> s32 list \<Rightarrow> gpu \<Rightarrow> nat \<Rightarrow> bool" where
  "swaps_at frame_skip lates s k \<longleftrightarrow>
     SwapBuffers \<in> set (vblank_events frame_skip (lates ! k) (firings frame_skip (take k lates) s))"

section \<open>Bit-fields and the declarations of the register structure\<close>

text \<open>
  \<^verbatim>\<open>BitField<position, bits, u32>\<close> overlays a 32-bit storage word. Its template is declared
  outside this file; the model is the usual one: the mask is \<open>bits\<close> ones shifted
  to \<open>position\<close>, \<^verbatim>\<open>Value()\<close> is \<^verbatim>\<open>(storage & mask) >> position\<close>, and \<^verbatim>\<open>Assign(val)\<close>
  stores \<^verbatim>\<open>(storage & ~mask) | ((val << position) & mask)\<close>.
\<close>

type_synonym BitField = "nat \<times> nat"

definition GetMask :: "BitField \<Rightarrow> u32" where
  "GetMask f = push_bit (fst f) (mask (snd f))"

definition Value :: "BitField \<Rightarrow> u32 \<Rightarrow> u32" where
  "Value f storage = drop_bit (fst f) (storage AND GetMask f)"

definition Assign :: "BitField \<Rightarrow> u32 \<Rightarrow> u32 \<Rightarrow> u32" where
  "Assign f val storage = (storage AND NOT (GetMask f)) OR (push_bit (fst f) val AND GetMask f)"

text \<open>
  \<^verbatim>\<open>struct Regs\<close> is declared in a header outside \<^verbatim>\<open>gpu.cpp\<close>. It fixes at which word index each
  named member lies and which bits each bit-field covers. These are parameters of the
  model, one record per configuration structure. What \<^verbatim>\<open>gpu.cpp\<close> itself fixes is kept as
  a definition: the two fill triggers are at the indices \<^verbatim>\<open>0x00004 + 0x3\<close> and
  \<^verbatim>\<open>0x00008 + 0x3\<close> (the constants of \<^verbatim>\<open>GPU_REG_INDEX_WORKAROUND\<close>), so a
  \<^verbatim>\<open>MemoryFillConfig\<close> is four words long and member \<open>m\<close> of \<^verbatim>\<open>memory_fill_config[k]\<close> is
  \<open>4 * k\<close> words after member \<open>m\<close> of \<^verbatim>\<open>memory_fill_config[0]\<close>.
\<close>

record MemoryFillConfig_decl =
  mf_address_start :: nat
  mf_address_end :: nat
  mf_value_32bit :: nat
  mf_value_16bit :: BitField
  mf_value_24bit_r :: BitField
  mf_value_24bit_g :: BitField
  mf_value_24bit_b :: BitField
  mf_trigger :: BitField
  mf_finished :: BitField
  mf_fill_24bit :: BitField
  mf_fill_32bit :: BitField

record TextureCopy_decl =
  tc_size :: nat
  tc_input_size :: nat
  tc_input_width :: BitField
  tc_input_gap :: BitField
  tc_output_size :: nat
  tc_output_width :: BitField
  tc_output_gap :: BitField

record DisplayTransferConfig_decl =
  dt_input_address :: nat
  dt_output_address :: nat
  dt_output_size :: nat
  dt_output_width :: BitField
  dt_output_height :: BitField
  dt_input_size :: nat
  dt_input_width :: BitField
  dt_input_height :: BitField
  dt_flags :: nat
  dt_flip_vertically :: BitField
  dt_input_linear :: BitField
  dt_is_texture_copy :: BitField
  dt_dont_swizzle :: BitField
  dt_input_format :: BitField
  dt_output_format :: BitField
  dt_scaling :: BitField
  dt_NoScale :: u32
  dt_ScaleX :: u32
  dt_ScaleXY :: u32
  dt_trigger :: nat
  dt_texture_copy :: TextureCopy_decl

record CommandProcessorConfig_decl =
  cp_size :: nat
  cp_address :: nat
  cp_trigger :: nat

text \<open>
  \<^verbatim>\<open>framebuffer_config[2]\<close>: the members that \<^verbatim>\<open>Init\<close> sets, for element 0; element 1 lies
  \<open>fb_words\<close> words further.
\<close>

record FramebufferConfig_decl =
  fb_address_left1 :: nat
  fb_address_left2 :: nat
  fb_address_right1 :: nat
  fb_address_right2 :: nat
  fb_size :: nat
  fb_width :: BitField
  fb_height :: BitField
  fb_stride :: nat
  fb_format :: nat
  fb_color_format :: BitField
  fb_active_fb :: nat
  fb_words :: nat

datatype PixelFormat = RGBA8 | RGB8 | RGB565 | RGB5A1 | RGBA4

record Regs_decl =
  VADDR_GPU :: u32
  NumIds :: nat
  DecodeAddressRegister :: "u32 \<Rightarrow> u32"
  memory_fill_config :: MemoryFillConfig_decl
  framebuffer_config :: FramebufferConfig_decl
  display_transfer_config :: DisplayTransferConfig_decl
  command_processor_config :: CommandProcessorConfig_decl
  PixelFormat_value :: "PixelFormat \<Rightarrow> u32"
  BytesPerPixel :: "u32 \<Rightarrow> u32"

definition memory_fill_trigger_index :: "nat \<Rightarrow> nat" where
  "memory_fill_trigger_index k = (if k = 0 then 0x00004 + 0x3 else 0x00008 + 0x3)"

text \<open>
  What the write path asks of its surroundings: whether the rasterizer accelerates the
  operation offered to it in this write, whether the debug context and its recorder are
  present, the translation of a physical address to a host pointer (taken to succeed: a
  null pointer is not modelled), the tiled-offset
  function \<^verbatim>\<open>VideoCore::GetMortonOffset\<close>, and the pixel codec
  (\<^verbatim>\<open>Color::DecodeRGBA8\<close> is \<open>Color_Decode E RGBA8\<close>, and so on; a decoder reads at a
  pointer, an encoder writes at one).
\<close>

type_synonym Vec4 = "u8 \<times> u8 \<times> u8 \<times> u8"

record hooks =
  AccelerateFill :: bool
  AccelerateDisplayTransfer :: bool
  g_debug_context :: bool
  recorder :: bool
  GetPhysicalPointer :: "u32 \<Rightarrow> nat"
  GetMortonOffset :: "u32 \<Rightarrow> u32 \<Rightarrow> u32 \<Rightarrow> u32"
  Color_Decode :: "PixelFormat \<Rightarrow> (nat \<Rightarrow> u8) \<Rightarrow> nat \<Rightarrow> Vec4"
  Color_Encode :: "PixelFormat \<Rightarrow> Vec4 \<Rightarrow> nat \<Rightarrow> (nat \<Rightarrow> u8) \<Rightarrow> (nat \<Rightarrow> u8)"

section \<open>Register reads\<close>

text \<open>
  The template parameter \<^verbatim>\<open>T\<close> of \<^verbatim>\<open>Read\<close> and \<^verbatim>\<open>Write\<close> is instantiated at four types;
  \<^verbatim>\<open>std::is_same<T, u32>::value\<close> holds for \<open>U32\<close> only. A value of type \<^verbatim>\<open>T\<close> is carried
  as a 64-bit word.
\<close>

datatype access_type = U8 | U16 | U32 | U64

definition Read :: "Regs_decl \<Rightarrow> access_type \<Rightarrow> u64 \<Rightarrow> u32 \<Rightarrow> gpu \<Rightarrow> u64 \<times> gpu" where
  "Read D T var raw_addr s =
     (let addr = raw_addr - VADDR_GPU D;
          index = unat (addr div 4)
      in if index \<ge> NumIds D \<or> T \<noteq> U32 then (var, emit [LOG_ERROR] s)
         else (ucast (g_regs s (unat (addr div 4))), s))"

section \<open>The memory-fill engine\<close>

text \<open>
  The three fill loops of the software path. \<^verbatim>\<open>memcpy\<close> of a \<^verbatim>\<open>u16\<close> or \<^verbatim>\<open>u32\<close> object
  stores its bytes in host order, which is little-endian.
\<close>

definition store_u16 :: "u16 \<Rightarrow> nat \<Rightarrow> (nat \<Rightarrow> u8) \<Rightarrow> (nat \<Rightarrow> u8)" where
  "store_u16 v p m = m(p := ucast v, p + 1 := ucast (drop_bit 8 v))"

definition store_u32 :: "u32 \<Rightarrow> nat \<Rightarrow> (nat \<Rightarrow> u8) \<Rightarrow> (nat \<Rightarrow> u8)" where
  "store_u32 v p m =
     m(p := ucast v, p + 1 := ucast (drop_bit 8 v),
       p + 2 := ucast (drop_bit 16 v), p + 3 := ucast (drop_bit 24 v))"

function fill_24bit_loop :: "u8 \<Rightarrow> u8 \<Rightarrow> u8 \<Rightarrow> nat \<Rightarrow> nat \<Rightarrow> (nat \<Rightarrow> u8) \<Rightarrow> (nat \<Rightarrow> u8)" where
  "fill_24bit_loop r g b ptr end m =
     (if ptr < end
      then fill_24bit_loop r g b (ptr + 3) end (m(ptr := r, ptr + 1 := g, ptr + 2 := b))
      else m)"
  by pat_completeness auto
termination
  by (relation "measure (\<lambda>(r, g, b, ptr, end, m). end - ptr)") auto

function fill_32bit_loop :: "u32 \<Rightarrow> nat \<Rightarrow> nat \<Rightarrow> nat \<Rightarrow> (nat \<Rightarrow> u8) \<Rightarrow> (nat \<Rightarrow> u8)" where
  "fill_32bit_loop v start len i m =
     (if i < len then fill_32bit_loop v start len (i + 1) (store_u32 v (start + i * 4) m) else m)"
  by pat_completeness auto
termination
  by (relation "measure (\<lambda>(v, start, len, i, m). len - i)") auto

function fill_16bit_loop :: "u16 \<Rightarrow> nat \<Rightarrow> nat \<Rightarrow> (nat \<Rightarrow> u8) \<Rightarrow> (nat \<Rightarrow> u8)" where
  "fill_16bit_loop v ptr end m =
     (if ptr < end then fill_16bit_loop v (ptr + 2) end (store_u16 v ptr m) else m)"
  by pat_completeness auto
termination
  by (relation "measure (\<lambda>(v, ptr, end, m). end - ptr)") auto

text \<open>
  The body of \<^verbatim>\<open>if (!AccelerateFill(config))\<close>: the pattern is chosen by testing
  \<^verbatim>\<open>fill_24bit\<close> first, then \<^verbatim>\<open>fill_32bit\<close>. \<open>val\<close> and \<open>control\<close> are the storage words
  of the pattern and of the flags of the configuration.
\<close>

definition software_fill :: "MemoryFillConfig_decl \<Rightarrow> u32 \<Rightarrow> u32 \<Rightarrow> nat \<Rightarrow> nat \<Rightarrow> (nat \<Rightarrow> u8) \<Rightarrow> (nat \<Rightarrow> u8)" where
  "software_fill C val control start end m =
     (if Value (mf_fill_24bit C) control \<noteq> 0 then
        fill_24bit_loop (ucast (Value (mf_value_24bit_r C) val)) (ucast (Value (mf_value_24bit_g C) val))
          (ucast (Value (mf_value_24bit_b C) val)) start end m
      else if Value (mf_fill_32bit C) control \<noteq> 0 then
        (if end > start then fill_32bit_loop val start ((end - start) div 4) 0 m else m)
      else
        fill_16bit_loop (ucast (Value (mf_value_16bit C) val)) start end m)"

text \<open>
  The case of the two fill triggers in \<^verbatim>\<open>Write\<close>. \<open>index\<close> is the register index just
  written; \<^verbatim>\<open>config\<close> is \<^verbatim>\<open>memory_fill_config[is_second_filler]\<close>, whose members lie
  \<open>4 * k\<close> words after those of element 0.
\<close>

definition memory_fill_case :: "Regs_decl \<Rightarrow> hooks \<Rightarrow> nat \<Rightarrow> gpu \<Rightarrow> gpu" where
  "memory_fill_case D E index s =
     (let is_second_filler = (index \<noteq> memory_fill_trigger_index 0);
          k = (if is_second_filler then 1 else 0);
          C = memory_fill_config D;
          control = memory_fill_trigger_index k;
          config_address_start = g_regs s (mf_address_start C + 4 * k);
          config_address_end = g_regs s (mf_address_end C + 4 * k);
          config_value = g_regs s (mf_value_32bit C + 4 * k);
          GetStartAddress = DecodeAddressRegister D config_address_start;
          GetEndAddress = DecodeAddressRegister D config_address_end
      in if Value (mf_trigger C) (g_regs s control) \<noteq> 0 then
           (let s1 =
              (if config_address_start \<noteq> 0 then
                 (let start = GetPhysicalPointer E GetStartAddress;
                      end = GetPhysicalPointer E GetEndAddress;
                      s2 = (if \<not> AccelerateFill E then
                              (let s3 = emit [RasterizerFlushAndInvalidateRegion GetStartAddress
                                                (GetEndAddress - GetStartAddress)] s
                               in s3\<lparr>memory := software_fill C config_value (g_regs s control)
                                                  start end (memory s3)\<rparr>)
                            else s)
                  in emit [LOG_TRACE,
                           SignalInterrupt (if \<not> is_second_filler then PSC0 else PSC1)] s2)
               else s);
                s4 = s1\<lparr>g_regs := (g_regs s1)(control := Assign (mf_trigger C) 0 (g_regs s1 control))\<rparr>
            in s4\<lparr>g_regs := (g_regs s4)(control := Assign (mf_finished C) 1 (g_regs s4 control))\<rparr>)
         else s)"

section \<open>The transfer engine\<close>

subsection \<open>Texture copy\<close>

text \<open>
  \<^verbatim>\<open>std::memcpy(dst, src, n)\<close> on the flat memory (for regions that do not overlap, as
  \<^verbatim>\<open>memcpy\<close> requires).
\<close>

definition memcpy :: "(nat \<Rightarrow> u8) \<Rightarrow> nat \<Rightarrow> nat \<Rightarrow> nat \<Rightarrow> (nat \<Rightarrow> u8)" where
  "memcpy m dst src n = (\<lambda>a. if dst \<le> a \<and> a < dst + n then m (src + (a - dst)) else m a)"

text \<open>
  The \<^verbatim>\<open>while (remaining_size > 0)\<close> loop. Nothing in the loop makes it stop when
  \<^verbatim>\<open>copy_size\<close> is 0, so it is a partial function: \<open>None\<close> stands for a loop that never
  returns. \<^verbatim>\<open>std::min\<close> of the three counters is on \<^verbatim>\<open>u32\<close>.
\<close>

partial_function (option) texture_copy_loop ::
  "u32 \<Rightarrow> u32 \<Rightarrow> u32 \<Rightarrow> u32 \<Rightarrow> nat \<Rightarrow> nat \<Rightarrow> u32 \<Rightarrow> u32 \<Rightarrow> u32 \<Rightarrow> gpu \<Rightarrow> gpu option" where
  "texture_copy_loop input_width' input_gap' output_width' output_gap'
      src_pointer dst_pointer remaining_input remaining_output remaining_size s =
     (if remaining_size > 0 then
        (let copy_size = min remaining_input (min remaining_output remaining_size);
             s1 = emit [Memcpy dst_pointer src_pointer copy_size]
                    (s\<lparr>memory := memcpy (memory s) dst_pointer src_pointer (unat copy_size)\<rparr>);
             src1 = src_pointer + unat copy_size;
             dst1 = dst_pointer + unat copy_size;
             ri = remaining_input - copy_size;
             ro = remaining_output - copy_size;
             rs = remaining_size - copy_size
         in texture_copy_loop input_width' input_gap' output_width' output_gap'
              (if ri = 0 then src1 + unat input_gap' else src1)
              (if ro = 0 then dst1 + unat output_gap' else dst1)
              (if ri = 0 then input_width' else ri)
              (if ro = 0 then output_width' else ro)
              rs s1)
      else Some s)"

text \<open>
  The branch \<^verbatim>\<open>if (config.is_texture_copy)\<close>, up to its \<^verbatim>\<open>break\<close>. The two divisions are
  unsigned 32-bit divisions; a zero divisor traps, and the call does not return (\<open>None\<close>).
  \<open>cfg_size\<close>, \<open>cfg_input_size\<close>, \<open>cfg_output_size\<close> are the three storage words of
  \<^verbatim>\<open>config.texture_copy\<close>; the loop's parameters \<open>input_width'\<close>, ... are the locals
  \<^verbatim>\<open>input_width\<close>, ... of the source.
\<close>

definition texture_copy_case ::
  "TextureCopy_decl \<Rightarrow> u32 \<Rightarrow> u32 \<Rightarrow> nat \<Rightarrow> nat \<Rightarrow> u32 \<Rightarrow> u32 \<Rightarrow> u32 \<Rightarrow> gpu \<Rightarrow> gpu option" where
  "texture_copy_case T GetPhysicalInputAddress GetPhysicalOutputAddress src_pointer dst_pointer
      cfg_size cfg_input_size cfg_output_size s =
     (let input_width = Value (tc_input_width T) cfg_input_size * 16;
          input_gap = Value (tc_input_gap T) cfg_input_size * 16;
          output_width = Value (tc_output_width T) cfg_output_size * 16;
          output_gap = Value (tc_output_gap T) cfg_output_size * 16
      in if input_width = 0 then None
         else
           (let contiguous_input_size = cfg_size div input_width * (input_width + input_gap);
                s1 = emit [RasterizerFlushRegion GetPhysicalInputAddress contiguous_input_size] s
            in if output_width = 0 then None
               else
                 (let contiguous_output_size = cfg_size div output_width * (output_width + output_gap);
                      s2 = emit [RasterizerFlushAndInvalidateRegion GetPhysicalOutputAddress
                                   contiguous_output_size] s1
                  in case texture_copy_loop input_width input_gap output_width output_gap
                            src_pointer dst_pointer input_width output_width cfg_size s2 of
                       None \<Rightarrow> None
                     | Some s3 \<Rightarrow> Some (emit [LOG_TRACE, SignalInterrupt PPF] s3))))"

subsection \<open>Display transfer\<close>

text \<open>
  \<^verbatim>\<open>DecodePixel\<close>: the result and the events it logs. The enumerators of
  \<^verbatim>\<open>Regs::PixelFormat\<close> have the numeric values \<open>PixelFormat_value D\<close>.
\<close>

definition DecodePixel :: "Regs_decl \<Rightarrow> hooks \<Rightarrow> u32 \<Rightarrow> (nat \<Rightarrow> u8) \<Rightarrow> nat \<Rightarrow> Vec4 \<times> event list" where
  "DecodePixel D E input_format m src_pixel =
     (if input_format = PixelFormat_value D RGBA8 then (Color_Decode E RGBA8 m src_pixel, [])
      else if input_format = PixelFormat_value D RGB8 then (Color_Decode E RGB8 m src_pixel, [])
      else if input_format = PixelFormat_value D RGB565 then (Color_Decode E RGB565 m src_pixel, [])
      else if input_format = PixelFormat_value D RGB5A1 then (Color_Decode E RGB5A1 m src_pixel, [])
      else if input_format = PixelFormat_value D RGBA4 then (Color_Decode E RGBA4 m src_pixel, [])
      else ((0, 0, 0, 0), [LOG_ERROR]))"

text \<open>The \<^verbatim>\<open>switch (config.output_format)\<close> that encodes the colour at \<^verbatim>\<open>dst_pixel\<close>.\<close>

definition EncodePixel :: "Regs_decl \<Rightarrow> hooks \<Rightarrow> u32 \<Rightarrow> Vec4 \<Rightarrow> nat \<Rightarrow> gpu \<Rightarrow> gpu" where
  "EncodePixel D E output_format src_color dst_pixel s =
     (if output_format = PixelFormat_value D RGBA8
        then s\<lparr>memory := Color_Encode E RGBA8 src_color dst_pixel (memory s)\<rparr>
      else if output_format = PixelFormat_value D RGB8
        then s\<lparr>memory := Color_Encode E RGB8 src_color dst_pixel (memory s)\<rparr>
      else if output_format = PixelFormat_value D RGB565
        then s\<lparr>memory := Color_Encode E RGB565 src_color dst_pixel (memory s)\<rparr>
      else if output_format = PixelFormat_value D RGB5A1
        then s\<lparr>memory := Color_Encode E RGB5A1 src_color dst_pixel (memory s)\<rparr>
      else if output_format = PixelFormat_value D RGBA4
        then s\<lparr>memory := Color_Encode E RGBA4 src_color dst_pixel (memory s)\<rparr>
      else emit [LOG_ERROR] s)"

text \<open>
  The averages of the scaling modes: \<^verbatim>\<open>Vec4<u8>\<close> values are added and divided as
  \<^verbatim>\<open>int\<close> vectors and cast back to \<^verbatim>\<open>u8\<close>, component by component.
\<close>

definition average2 :: "Vec4 \<Rightarrow> Vec4 \<Rightarrow> Vec4" where
  "average2 c p =
     (case (c, p) of ((c1, c2, c3, c4), (p1, p2, p3, p4)) \<Rightarrow>
        (word_of_int ((uint c1 + uint p1) div 2), word_of_int ((uint c2 + uint p2) div 2),
         word_of_int ((uint c3 + uint p3) div 2), word_of_int ((uint c4 + uint p4) div 2)))"

definition average4 :: "Vec4 \<Rightarrow> Vec4 \<Rightarrow> Vec4 \<Rightarrow> Vec4 \<Rightarrow> Vec4" where
  "average4 c p q r =
     (case (c, p, q, r) of ((c1, c2, c3, c4), (p1, p2, p3, p4), (q1, q2, q3, q4), (r1, r2, r3, r4)) \<Rightarrow>
        (word_of_int (((uint c1 + uint p1) + (uint q1 + uint r1)) div 4),
         word_of_int (((uint c2 + uint p2) + (uint q2 + uint r2)) div 4),
         word_of_int (((uint c3 + uint p3) + (uint q3 + uint r3)) div 4),
         word_of_int (((uint c4 + uint p4) + (uint q4 + uint r4)) div 4)))"

text \<open>
  The values the pixel loop takes from the configuration, computed once before the loop or
  read from \<^verbatim>\<open>config\<close> inside it.
\<close>

record transfer =
  t_flags :: u32
  t_input_width :: u32
  t_src_pointer :: nat
  t_dst_pointer :: nat
  t_horizontal_scale :: nat
  t_vertical_scale :: nat
  t_output_width :: u32
  t_output_height :: u32

text \<open>
  The body of the inner loop at output position \<open>(x, y)\<close>. The flip is the assignment
  \<^verbatim>\<open>y = output_height - y - 1;\<close> to the loop variable of the outer loop, so the body returns
  the new value of \<^verbatim>\<open>y\<close> together with the state.
\<close>

definition transfer_pixel :: "Regs_decl \<Rightarrow> hooks \<Rightarrow> transfer \<Rightarrow> u32 \<Rightarrow> u32 \<Rightarrow> gpu \<Rightarrow> u32 \<times> gpu" where
  "transfer_pixel D E t x y0 s =
     (let C = display_transfer_config D;
          input_x = push_bit (t_horizontal_scale t) x;
          input_y = push_bit (t_vertical_scale t) y0;
          y = (if Value (dt_flip_vertically C) (t_flags t) \<noteq> 0 then t_output_height t - y0 - 1 else y0);
          config_input_format = Value (dt_input_format C) (t_flags t);
          config_output_format = Value (dt_output_format C) (t_flags t);
          config_scaling = Value (dt_scaling C) (t_flags t);
          dst_bytes_per_pixel = BytesPerPixel D config_output_format;
          src_bytes_per_pixel = BytesPerPixel D config_input_format;
          (src_offset, dst_offset) =
            (if Value (dt_input_linear C) (t_flags t) \<noteq> 0 then
               (if \<not> Value (dt_dont_swizzle C) (t_flags t) \<noteq> 0 then
                  (let coarse_y = y AND NOT 7;
                       stride = t_output_width t * dst_bytes_per_pixel
                   in ((input_x + input_y * t_input_width t) * src_bytes_per_pixel,
                       GetMortonOffset E x y dst_bytes_per_pixel + coarse_y * stride))
                else
                  ((input_x + input_y * t_input_width t) * src_bytes_per_pixel,
                   (x + y * t_output_width t) * dst_bytes_per_pixel))
             else
               (if \<not> Value (dt_dont_swizzle C) (t_flags t) \<noteq> 0 then
                  (let coarse_y = input_y AND NOT 7;
                       stride = t_input_width t * src_bytes_per_pixel
                   in (GetMortonOffset E input_x input_y src_bytes_per_pixel + coarse_y * stride,
                       (x + y * t_output_width t) * dst_bytes_per_pixel))
                else
                  (let out_coarse_y = y AND NOT 7;
                       out_stride = t_output_width t * dst_bytes_per_pixel;
                       in_coarse_y = input_y AND NOT 7;
                       in_stride = t_input_width t * src_bytes_per_pixel
                   in (GetMortonOffset E input_x input_y src_bytes_per_pixel + in_coarse_y * in_stride,
                       GetMortonOffset E x y dst_bytes_per_pixel + out_coarse_y * out_stride))));
          src_pixel = t_src_pointer t + unat src_offset;
          bpp = unat src_bytes_per_pixel;
          (c0, log0) = DecodePixel D E config_input_format (memory s) src_pixel;
          (src_color, log) =
            (if config_scaling = dt_ScaleX C then
               (let (pixel, log1) = DecodePixel D E config_input_format (memory s) (src_pixel + bpp)
                in (average2 c0 pixel, log0 @ log1))
             else if config_scaling = dt_ScaleXY C then
               (let (pixel1, log1) = DecodePixel D E config_input_format (memory s) (src_pixel + 1 * bpp);
                    (pixel2, log2) = DecodePixel D E config_input_format (memory s) (src_pixel + 2 * bpp);
                    (pixel3, log3) = DecodePixel D E config_input_format (memory s) (src_pixel + 3 * bpp)
                in (average4 c0 pixel1 pixel2 pixel3, log0 @ log1 @ log2 @ log3))
             else (c0, log0));
          dst_pixel = t_dst_pointer t + unat dst_offset
      in (y, EncodePixel D E config_output_format src_color dst_pixel
               (emit (Pixel input_x input_y x y # log) s)))"

text \<open>The inner loop \<^verbatim>\<open>for (u32 x = 0; x < output_width; ++x)\<close>, from \<open>x\<close> on.\<close>

function transfer_row :: "Regs_decl \<Rightarrow> hooks \<Rightarrow> transfer \<Rightarrow> u32 \<Rightarrow> u32 \<Rightarrow> gpu \<Rightarrow> u32 \<times> gpu" where
  "transfer_row D E t x y s =
     (if x < t_output_width t
      then (case transfer_pixel D E t x y s of (y', s') \<Rightarrow> transfer_row D E t (x + 1) y' s')
      else (y, s))"
  by pat_completeness auto
termination
proof (relation "measure (\<lambda>(D, E, t, x, y, s). unat (t_output_width t) - unat x)", goal_cases)
  case 1
  show ?case by simp
next
  case (2 D E t x y s y' s')
  from \<open>x < t_output_width t\<close> have "unat x + 1 < 2 ^ 32"
    using unsigned_less [of "t_output_width t", where 'a = nat] by (simp add: word_less_nat_alt)
  then have "unat (x + 1) = unat x + 1"
    by (simp add: unat_add_lem [THEN iffD1])
  with \<open>x < t_output_width t\<close> show ?case
    by (simp add: word_less_nat_alt)
qed

text \<open>
  The outer loop \<^verbatim>\<open>for (u32 y = 0; y < output_height; ++y)\<close>, from \<open>y\<close> on. The inner loop
  may change \<open>y\<close>, so nothing bounds the number of rounds in general: \<open>None\<close> stands for
  a loop that never returns.
\<close>

partial_function (option) transfer_rows :: "Regs_decl \<Rightarrow> hooks \<Rightarrow> transfer \<Rightarrow> u32 \<Rightarrow> gpu \<Rightarrow> gpu option" where
  "transfer_rows D E t y s =
     (if y < t_output_height t
      then (case transfer_row D E t 0 y s of (y', s') \<Rightarrow> transfer_rows D E t (y' + 1) s')
      else Some s)"

text \<open>
  The software path of the display-transfer trigger: the block guarded by
  \<^verbatim>\<open>if (!AccelerateDisplayTransfer(config))\<close>. Three places leave the enclosing
  \<^verbatim>\<open>switch\<close> by \<^verbatim>\<open>break\<close>, which skips the statements after the block; otherwise control
  proceeds to them.
\<close>

datatype flow = Break gpu | Proceed gpu

definition display_transfer_software :: "Regs_decl \<Rightarrow> hooks \<Rightarrow> gpu \<Rightarrow> flow option" where
  "display_transfer_software D E s =
     (let C = display_transfer_config D;
          T = dt_texture_copy C;
          config_flags = g_regs s (dt_flags C);
          config_scaling = Value (dt_scaling C) config_flags;
          config_input_format = Value (dt_input_format C) config_flags;
          config_output_format = Value (dt_output_format C) config_flags;
          config_input_width = Value (dt_input_width C) (g_regs s (dt_input_size C));
          config_input_height = Value (dt_input_height C) (g_regs s (dt_input_size C));
          config_output_width = Value (dt_output_width C) (g_regs s (dt_output_size C));
          config_output_height = Value (dt_output_height C) (g_regs s (dt_output_size C));
          GetPhysicalInputAddress = DecodeAddressRegister D (g_regs s (dt_input_address C));
          GetPhysicalOutputAddress = DecodeAddressRegister D (g_regs s (dt_output_address C));
          src_pointer = GetPhysicalPointer E GetPhysicalInputAddress;
          dst_pointer = GetPhysicalPointer E GetPhysicalOutputAddress
      in if Value (dt_is_texture_copy C) config_flags \<noteq> 0 then
           map_option Break
             (texture_copy_case T GetPhysicalInputAddress GetPhysicalOutputAddress
                src_pointer dst_pointer
                (g_regs s (tc_size T)) (g_regs s (tc_input_size T)) (g_regs s (tc_output_size T)) s)
         else if config_scaling > dt_ScaleXY C then
           Some (Break (emit [LOG_CRITICAL, UNIMPLEMENTED] s))
         else if Value (dt_input_linear C) config_flags \<noteq> 0 \<and> config_scaling \<noteq> dt_NoScale C then
           Some (Break (emit [LOG_CRITICAL, UNIMPLEMENTED] s))
         else
           (let horizontal_scale = (if config_scaling \<noteq> dt_NoScale C then 1 else 0);
                vertical_scale = (if config_scaling = dt_ScaleXY C then 1 else 0);
                output_width = drop_bit horizontal_scale config_output_width;
                output_height = drop_bit vertical_scale config_output_height;
                input_size = config_input_width * config_input_height
                               * BytesPerPixel D config_input_format;
                output_size = output_width * output_height * BytesPerPixel D config_output_format;
                s1 = emit [RasterizerFlushRegion GetPhysicalInputAddress input_size,
                           RasterizerFlushAndInvalidateRegion GetPhysicalOutputAddress output_size] s;
                t = \<lparr>t_flags = config_flags, t_input_width = config_input_width,
                     t_src_pointer = src_pointer, t_dst_pointer = dst_pointer,
                     t_horizontal_scale = horizontal_scale, t_vertical_scale = vertical_scale,
                     t_output_width = output_width, t_output_height = output_height\<rparr>
            in case transfer_rows D E t 0 s1 of
                 None \<Rightarrow> None
               | Some s2 \<Rightarrow> Some (Proceed (emit [LOG_TRACE] s2))))"

text \<open>The case of the display-transfer trigger in \<^verbatim>\<open>Write\<close>.\<close>

definition display_transfer_case :: "Regs_decl \<Rightarrow> hooks \<Rightarrow> gpu \<Rightarrow> gpu option" where
  "display_transfer_case D E s =
     (let C = display_transfer_config D
      in if g_regs s (dt_trigger C) AND 1 \<noteq> 0 then
           (let s1 = (if g_debug_context E then emit [OnEvent_IncomingDisplayTransfer] s else s);
                r = (if \<not> AccelerateDisplayTransfer E then display_transfer_software D E s1
                     else Some (Proceed s1))
            in case r of
                 None \<Rightarrow> None
               | Some (Break s2) \<Rightarrow> Some s2
               | Some (Proceed s2) \<Rightarrow>
                   Some (emit [SignalInterrupt PPF]
                           (s2\<lparr>g_regs := (g_regs s2)(dt_trigger C := 0)\<rparr>)))
         else Some s)"

section \<open>Command dispatch\<close>

text \<open>The case of the command-processor trigger in \<^verbatim>\<open>Write\<close>.\<close>

definition command_processor_case :: "Regs_decl \<Rightarrow> hooks \<Rightarrow> gpu \<Rightarrow> gpu" where
  "command_processor_case D E s =
     (let C = command_processor_config D;
          config_size = g_regs s (cp_size C);
          GetPhysicalAddress = DecodeAddressRegister D (g_regs s (cp_address C))
      in if g_regs s (cp_trigger C) AND 1 \<noteq> 0 then
           (let buffer = GetPhysicalPointer E GetPhysicalAddress;
                s1 = (if g_debug_context E \<and> recorder E
                      then emit [MemoryAccessed buffer (unat config_size * 4) GetPhysicalAddress] s
                      else s);
                s2 = emit [ProcessCommandList buffer config_size] s1
            in s2\<lparr>g_regs := (g_regs s2)(cp_trigger C := 0)\<rparr>)
         else s)"

section \<open>Register writes\<close>

text \<open>
  \<^verbatim>\<open>Write<T>(u32 addr, const T data)\<close>. The result is \<open>None\<close> when the call does not return
  (a division trap or an endless loop in the triggered engine). The cases of the
  \<^verbatim>\<open>switch\<close> are tried in the order of the source.
\<close>

definition Write :: "Regs_decl \<Rightarrow> hooks \<Rightarrow> access_type \<Rightarrow> u32 \<Rightarrow> u64 \<Rightarrow> gpu \<Rightarrow> gpu option" where
  "Write D E T addr0 data s =
     (let addr = addr0 - VADDR_GPU D;
          index = unat (addr div 4)
      in if index \<ge> NumIds D \<or> T \<noteq> U32 then Some (emit [LOG_ERROR] s)
         else
           (let s1 = s\<lparr>g_regs := (g_regs s)(index := ucast data)\<rparr>;
                r = (if index = memory_fill_trigger_index 0 \<or> index = memory_fill_trigger_index 1
                       then Some (memory_fill_case D E index s1)
                     else if index = dt_trigger (display_transfer_config D)
                       then display_transfer_case D E s1
                     else if index = cp_trigger (command_processor_config D)
                       then Some (command_processor_case D E s1)
                     else Some s1)
            in case r of
                 None \<Rightarrow> None
               | Some s2 \<Rightarrow>
                   Some (if g_debug_context E \<and> recorder E
                         then emit [RegisterWritten (addr + 0x1EF00000 - 0x1EC00000 + 0x10100000)
                                      (ucast data)] s2
                         else s2)))"

section \<open>Initialisation\<close>

text \<open>
  \<^verbatim>\<open>Init()\<close>: \<^verbatim>\<open>memset\<close> clears the register file, the defaults of the two framebuffers
  are stored (\<^verbatim>\<open>framebuffer_top\<close> is element 0, \<^verbatim>\<open>framebuffer_sub\<close> element 1), the frame
  timing globals are reset, and the vertical-blank event is registered and scheduled.
\<close>

definition set_reg :: "nat \<Rightarrow> u32 \<Rightarrow> gpu \<Rightarrow> gpu" where
  "set_reg i v s = s\<lparr>g_regs := (g_regs s)(i := v)\<rparr>"

definition assign_reg :: "nat \<Rightarrow> BitField \<Rightarrow> u32 \<Rightarrow> gpu \<Rightarrow> gpu" where
  "assign_reg i f v s = s\<lparr>g_regs := (g_regs s)(i := Assign f v (g_regs s i))\<rparr>"

definition Init :: "Regs_decl \<Rightarrow> gpu \<Rightarrow> gpu" where
  "Init D s =
     (let F = framebuffer_config D;
          top = 0;
          sub = fb_words F;
          s0 = s\<lparr>g_regs := (\<lambda>i. if i < NumIds D then 0 else g_regs s i)\<rparr>;
          s1 = set_reg (fb_address_left1 F + top) 0x181E6000 s0;
          s2 = set_reg (fb_address_left2 F + top) 0x1822C800 s1;
          s3 = set_reg (fb_address_right1 F + top) 0x18273000 s2;
          s4 = set_reg (fb_address_right2 F + top) 0x182B9800 s3;
          s5 = set_reg (fb_address_left1 F + sub) 0x1848F000 s4;
          s6 = set_reg (fb_address_left2 F + sub) 0x184C7800 s5;
          s7 = assign_reg (fb_size F + top) (fb_width F) 240 s6;
          s8 = assign_reg (fb_size F + top) (fb_height F) 400 s7;
          s9 = set_reg (fb_stride F + top) (3 * 240) s8;
          s10 = assign_reg (fb_format F + top) (fb_color_format F) (PixelFormat_value D RGB8) s9;
          s11 = set_reg (fb_active_fb F + top) 0 s10;
          s12 = assign_reg (fb_size F + sub) (fb_width F) 240 s11;
          s13 = assign_reg (fb_size F + sub) (fb_height F) 320 s12;
          s14 = set_reg (fb_stride F + sub) (3 * 240) s13;
          s15 = assign_reg (fb_format F + sub) (fb_color_format F) (PixelFormat_value D RGB8) s14;
          s16 = set_reg (fb_active_fb F + sub) 0 s15;
          s17 = s16\<lparr>last_skip_frame := False, g_skip_frame := False, frame_count := 0\<rparr>
      in emit [RegisterEvent, ScheduleEvent frame_ticks, LOG_DEBUG] s17)"

section \<open>A concrete configuration for the examples\<close>

text \<open>
  An instance of the declarations and of the hooks on which the examples are evaluated: a
  register map of \<open>0x1000\<close> words with the fill configurations at \<open>0x4\<close> and \<open>0x8\<close>,
  the framebuffer configurations at \<open>0x117\<close> and \<open>0x157\<close>, the transfer configuration at
  \<open>0x300\<close> and the command-buffer configuration at \<open>0x638\<close>,
  addresses stored in units of eight bytes, a software-only rasterizer, no debugger, and an
  identity translation of physical addresses. The example codec reads and writes the first
  byte of a pixel only.
\<close>

definition ex_fill :: MemoryFillConfig_decl where
  "ex_fill = \<lparr>mf_address_start = 0x4, mf_address_end = 0x5, mf_value_32bit = 0x6,
     mf_value_16bit = (0, 16), mf_value_24bit_r = (0, 8), mf_value_24bit_g = (8, 8),
     mf_value_24bit_b = (16, 8), mf_trigger = (0, 1), mf_finished = (1, 1),
     mf_fill_24bit = (8, 1), mf_fill_32bit = (9, 1)\<rparr>"

definition ex_framebuffer :: FramebufferConfig_decl where
  "ex_framebuffer = \<lparr>fb_address_left1 = 0x11A, fb_address_left2 = 0x11B,
     fb_address_right1 = 0x125, fb_address_right2 = 0x126, fb_size = 0x117, fb_width = (0, 16),
     fb_height = (16, 16), fb_stride = 0x124, fb_format = 0x11C, fb_color_format = (0, 3),
     fb_active_fb = 0x11E, fb_words = 0x40\<rparr>"

definition ex_texture_copy :: TextureCopy_decl where
  "ex_texture_copy = \<lparr>tc_size = 0x308, tc_input_size = 0x309, tc_input_width = (0, 16),
     tc_input_gap = (16, 16), tc_output_size = 0x30A, tc_output_width = (0, 16),
     tc_output_gap = (16, 16)\<rparr>"

definition ex_transfer :: DisplayTransferConfig_decl where
  "ex_transfer = \<lparr>dt_input_address = 0x300, dt_output_address = 0x301, dt_output_size = 0x302,
     dt_output_width = (0, 16), dt_output_height = (16, 16), dt_input_size = 0x303,
     dt_input_width = (0, 16), dt_input_height = (16, 16), dt_flags = 0x304,
     dt_flip_vertically = (0, 1), dt_input_linear = (1, 1), dt_is_texture_copy = (3, 1),
     dt_dont_swizzle = (5, 1), dt_input_format = (8, 3), dt_output_format = (12, 3),
     dt_scaling = (24, 2), dt_NoScale = 0, dt_ScaleX = 1, dt_ScaleXY = 2,
     dt_trigger = 0x306, dt_texture_copy = ex_texture_copy\<rparr>"

definition ex_command :: CommandProcessorConfig_decl where
  "ex_command = \<lparr>cp_size = 0x638, cp_address = 0x63A, cp_trigger = 0x63C\<rparr>"

fun ex_format_value :: "PixelFormat \<Rightarrow> u32" where
  "ex_format_value RGBA8 = 0"
| "ex_format_value RGB8 = 1"
| "ex_format_value RGB565 = 2"
| "ex_format_value RGB5A1 = 3"
| "ex_format_value RGBA4 = 4"

definition ex_bytes_per_pixel :: "u32 \<Rightarrow> u32" where
  "ex_bytes_per_pixel f = (if f = 0 then 4 else if f = 1 then 3 else 2)"

definition ex_regs :: Regs_decl where
  "ex_regs = \<lparr>VADDR_GPU = 0x1EF00000, NumIds = 0x1000, DecodeAddressRegister = (\<lambda>r. r * 8),
     memory_fill_config = ex_fill, framebuffer_config = ex_framebuffer,
     display_transfer_config = ex_transfer,
     command_processor_config = ex_command, PixelFormat_value = ex_format_value,
     BytesPerPixel = ex_bytes_per_pixel\<rparr>"

definition ex_hooks :: hooks where
  "ex_hooks = \<lparr>AccelerateFill = False, AccelerateDisplayTransfer = False,
     g_debug_context = False, recorder = False, GetPhysicalPointer = unat,
     GetMortonOffset = (\<lambda>x y bytes_per_pixel. 0),
     Color_Decode = (\<lambda>f m p. (m p, 0, 0, 0)),
     Color_Encode = (\<lambda>f c p m. m(p := fst c))\<rparr>"

text \<open>All globals and all of memory zero, nothing emitted yet.\<close>

definition zeroed :: gpu where
  "zeroed = \<lparr>g_regs = (\<lambda>i. 0), g_skip_frame = False, frame_count = 0, last_skip_frame = False,
     memory = (\<lambda>a. 0), events = []\<rparr>"

text \<open>Storing a list of (index, value) pairs into the register file, without side effects.\<close>

fun with_regs :: "(nat \<times> u32) list \<Rightarrow> gpu \<Rightarrow> gpu" where
  "with_regs [] s = s"
| "with_regs ((i, v) # ivs) s = with_regs ivs (s\<lparr>g_regs := (g_regs s)(i := v)\<rparr>)"

section \<open>Notions used in the statements\<close>

text \<open>
  A bit-field is proper when it has at least one bit and lies inside the 32-bit storage
  word; two bit-fields are disjoint when they share no bit.
\<close>

definition proper :: "BitField \<Rightarrow> bool" where
  "proper f \<longleftrightarrow> 0 < snd f \<and> fst f + snd f \<le> 32"

definition disjoint :: "BitField \<Rightarrow> BitField \<Rightarrow> bool" where
  "disjoint f g \<longleftrightarrow> fst f + snd f \<le> fst g \<or> fst g + snd g \<le> fst f"

text \<open>
  For an access at address \<open>addr0\<close>: the register index \<^verbatim>\<open>index\<close> that \<^verbatim>\<open>Read\<close> and
  \<^verbatim>\<open>Write\<close> compute, the state right after the assignment \<^verbatim>\<open>g_regs[index] = data\<close>, and
  what the tracer is told at the end of \<^verbatim>\<open>Write\<close>.
\<close>

definition reg_index :: "Regs_decl \<Rightarrow> u32 \<Rightarrow> nat" where
  "reg_index D addr0 = unat ((addr0 - VADDR_GPU D) div 4)"

definition stored :: "Regs_decl \<Rightarrow> u32 \<Rightarrow> u64 \<Rightarrow> gpu \<Rightarrow> gpu" where
  "stored D addr0 data s = s\<lparr>g_regs := (g_regs s)(reg_index D addr0 := ucast data)\<rparr>"

definition traced :: "Regs_decl \<Rightarrow> hooks \<Rightarrow> u32 \<Rightarrow> u64 \<Rightarrow> event list" where
  "traced D E addr0 data =
     (if g_debug_context E \<and> recorder E
      then [RegisterWritten (addr0 - VADDR_GPU D + 0x1EF00000 - 0x1EC00000 + 0x10100000) (ucast data)]
      else [])"

text \<open>
  The members of \<^verbatim>\<open>memory_fill_config[k]\<close> as a fill reads them: the host pointers
  \<^verbatim>\<open>start\<close> and \<^verbatim>\<open>end\<close>, the pattern word, and the three bytes of the 24-bit pattern.
\<close>

definition fill_start :: "Regs_decl \<Rightarrow> hooks \<Rightarrow> nat \<Rightarrow> gpu \<Rightarrow> nat" where
  "fill_start D E k s =
     GetPhysicalPointer E (DecodeAddressRegister D (g_regs s (mf_address_start (memory_fill_config D) + 4 * k)))"

definition fill_end :: "Regs_decl \<Rightarrow> hooks \<Rightarrow> nat \<Rightarrow> gpu \<Rightarrow> nat" where
  "fill_end D E k s =
     GetPhysicalPointer E (DecodeAddressRegister D (g_regs s (mf_address_end (memory_fill_config D) + 4 * k)))"

definition fill_value :: "Regs_decl \<Rightarrow> nat \<Rightarrow> gpu \<Rightarrow> u32" where
  "fill_value D k s = g_regs s (mf_value_32bit (memory_fill_config D) + 4 * k)"

definition pattern_24bit :: "MemoryFillConfig_decl \<Rightarrow> u32 \<Rightarrow> u8 list" where
  "pattern_24bit C val =
     [ucast (Value (mf_value_24bit_r C) val), ucast (Value (mf_value_24bit_g C) val),
      ucast (Value (mf_value_24bit_b C) val)]"

definition pattern_32bit :: "u32 \<Rightarrow> u8 list" where
  "pattern_32bit val = [ucast val, ucast (drop_bit 8 val), ucast (drop_bit 16 val), ucast (drop_bit 24 val)]"

definition pattern_16bit :: "MemoryFillConfig_decl \<Rightarrow> u32 \<Rightarrow> u8 list" where
  "pattern_16bit C val =
     [ucast (ucast (Value (mf_value_16bit C) val) :: u16),
      ucast (drop_bit 8 (ucast (Value (mf_value_16bit C) val) :: u16))]"

text \<open>
  The last two statements of the fill case: \<^verbatim>\<open>config.trigger.Assign(0);\<close>
  \<^verbatim>\<open>config.finished.Assign(1);\<close> on the control word of engine \<open>k\<close>.
\<close>

definition fill_done :: "Regs_decl \<Rightarrow> nat \<Rightarrow> gpu \<Rightarrow> gpu" where
  "fill_done D k s =
     s\<lparr>g_regs := (g_regs s)(memory_fill_trigger_index k :=
          Assign (mf_finished (memory_fill_config D)) 1
            (Assign (mf_trigger (memory_fill_config D)) 0 (g_regs s (memory_fill_trigger_index k))))\<rparr>"

text \<open>Whether an event is a call of \<^verbatim>\<open>CoreTiming::ScheduleEvent\<close>.\<close>

fun is_ScheduleEvent :: "event \<Rightarrow> bool" where
  "is_ScheduleEvent (ScheduleEvent d) = True"
| "is_ScheduleEvent e = False"

text \<open>The bytes at \<open>a, a + 1, ..., a + n - 1\<close> of memory after a call that returned.\<close>

definition bytes_after :: "gpu option \<Rightarrow> nat \<Rightarrow> nat \<Rightarrow> u8 list" where
  "bytes_after r a n = (case r of None \<Rightarrow> [] | Some s \<Rightarrow> map (memory s) [a..<a + n])"

text \<open>
  For the transfer engine: the locals \<^verbatim>\<open>input_width\<close>, \<^verbatim>\<open>output_width\<close>, \<^verbatim>\<open>input_gap\<close>,
  \<^verbatim>\<open>output_gap\<close>, \<^verbatim>\<open>src_pointer\<close> and \<^verbatim>\<open>dst_pointer\<close> of the software path, the
  configured \<^verbatim>\<open>texture_copy.size\<close> and \<^verbatim>\<open>flags\<close>; the debugger's event; the
  number of bytes the \<^verbatim>\<open>memcpy\<close> calls among a list of events copy; and whether an event
  is a \<^verbatim>\<open>memcpy\<close> of a non-empty chunk that fits in a row of either side.
\<close>

definition texture_input_width :: "Regs_decl \<Rightarrow> gpu \<Rightarrow> u32" where
  "texture_input_width D s =
     (let T = dt_texture_copy (display_transfer_config D)
      in Value (tc_input_width T) (g_regs s (tc_input_size T)) * 16)"

definition texture_output_width :: "Regs_decl \<Rightarrow> gpu \<Rightarrow> u32" where
  "texture_output_width D s =
     (let T = dt_texture_copy (display_transfer_config D)
      in Value (tc_output_width T) (g_regs s (tc_output_size T)) * 16)"

definition texture_size :: "Regs_decl \<Rightarrow> gpu \<Rightarrow> u32" where
  "texture_size D s = g_regs s (tc_size (dt_texture_copy (display_transfer_config D)))"

definition transfer_flags :: "Regs_decl \<Rightarrow> gpu \<Rightarrow> u32" where
  "transfer_flags D s = g_regs s (dt_flags (display_transfer_config D))"

definition texture_input_gap :: "Regs_decl \<Rightarrow> gpu \<Rightarrow> u32" where
  "texture_input_gap D s =
     (let T = dt_texture_copy (display_transfer_config D)
      in Value (tc_input_gap T) (g_regs s (tc_input_size T)) * 16)"

definition texture_output_gap :: "Regs_decl \<Rightarrow> gpu \<Rightarrow> u32" where
  "texture_output_gap D s =
     (let T = dt_texture_copy (display_transfer_config D)
      in Value (tc_output_gap T) (g_regs s (tc_output_size T)) * 16)"

definition transfer_src_pointer :: "Regs_decl \<Rightarrow> hooks \<Rightarrow> gpu \<Rightarrow> nat" where
  "transfer_src_pointer D E s =
     GetPhysicalPointer E (DecodeAddressRegister D (g_regs s (dt_input_address (display_transfer_config D))))"

definition transfer_dst_pointer :: "Regs_decl \<Rightarrow> hooks \<Rightarrow> gpu \<Rightarrow> nat" where
  "transfer_dst_pointer D E s =
     GetPhysicalPointer E (DecodeAddressRegister D (g_regs s (dt_output_address (display_transfer_config D))))"

definition debug_event :: "hooks \<Rightarrow> event list" where
  "debug_event E = (if g_debug_context E then [OnEvent_IncomingDisplayTransfer] else [])"

fun memcpy_size :: "event \<Rightarrow> nat" where
  "memcpy_size (Memcpy dst src n) = unat n"
| "memcpy_size e = 0"

definition copied :: "event list \<Rightarrow> nat" where
  "copied es = sum_list (map memcpy_size es)"

fun chunk_within :: "u32 \<Rightarrow> u32 \<Rightarrow> event \<Rightarrow> bool" where
  "chunk_within iw ow (Memcpy dst src n) = (0 < n \<and> n \<le> iw \<and> n \<le> ow)"
| "chunk_within iw ow e = False"

text \<open>
  The byte moves of a list of events, in order: a \<^verbatim>\<open>memcpy\<close> of \<open>n\<close> bytes moves the byte
  at \<open>src + j\<close> to \<open>dst + j\<close> for \<open>j = 0, ..., n - 1\<close>; a move is written as the pair
  (destination, source). \<open>strided width gap k\<close> is the offset of payload byte \<open>k\<close> in a
  region made of rows of \<open>width\<close> bytes, each followed by a gap of \<open>gap\<close> bytes.
\<close>

fun event_bytes :: "event \<Rightarrow> (nat \<times> nat) list" where
  "event_bytes (Memcpy dst src n) = map (\<lambda>j. (dst + j, src + j)) [0..<unat n]"
| "event_bytes e = []"

definition byte_moves :: "event list \<Rightarrow> (nat \<times> nat) list" where
  "byte_moves es = concat (map event_bytes es)"

definition strided :: "u32 \<Rightarrow> u32 \<Rightarrow> nat \<Rightarrow> nat" where
  "strided width gap k = k + (k div unat width) * unat gap"

text \<open>
  The chunk that the transfer engine is specified to copy once \<open>p\<close> of \<open>n\<close> payload bytes
  have been copied: its length is the minimum of what remains of the input row, of the
  output row and of the total, and it starts at the strided offsets of \<open>p\<close> on both
  sides. This definition follows the wording of the specification; the loop above follows
  the source.
\<close>

definition spec_chunk :: "u32 \<Rightarrow> u32 \<Rightarrow> u32 \<Rightarrow> u32 \<Rightarrow> nat \<Rightarrow> nat \<Rightarrow> nat \<Rightarrow> nat \<Rightarrow> event" where
  "spec_chunk iw ig ow og src dst n p =
     Memcpy (dst + strided ow og p) (src + strided iw ig p)
       (of_nat (min (unat iw - p mod unat iw) (min (unat ow - p mod unat ow) (n - p))))"

text \<open>Whether an event is a \<^verbatim>\<open>memcpy\<close> of the texture-copy loop.\<close>

fun is_Memcpy :: "event \<Rightarrow> bool" where
  "is_Memcpy (Memcpy dst src n) = True"
| "is_Memcpy e = False"

text \<open>What a word-sized read at \<open>addr0\<close> returns after a write that returned.\<close>

definition read_back :: "Regs_decl \<Rightarrow> u32 \<Rightarrow> gpu option \<Rightarrow> u64 option" where
  "read_back D addr0 r = map_option (\<lambda>s. fst (Read D U32 0 addr0 s)) r"

declare fill_24bit_loop.simps [simp del] fill_32bit_loop.simps [simp del] fill_16bit_loop.simps [simp del]

section \<open>Auxiliary facts\<close>

subsection \<open>Events and register stores\<close>

lemma emit_Nil [simp]: "emit [] s = s"
  by (simp add: emit_def)

lemma emit_fields [simp]:
  "g_regs (emit es s) = g_regs s" "memory (emit es s) = memory s"
  "events (emit es s) = events s @ es"
  "g_skip_frame (emit es s) = g_skip_frame s" "frame_count (emit es s) = frame_count s"
  "last_skip_frame (emit es s) = last_skip_frame s"
  by (simp_all add: emit_def)

lemma stored_fields [simp]:
  "memory (stored D addr0 data s) = memory s" "events (stored D addr0 data s) = events s"
  "g_regs (stored D addr0 data s) (reg_index D addr0) = ucast data"
  "i \<noteq> reg_index D addr0 \<Longrightarrow> g_regs (stored D addr0 data s) i = g_regs s i"
  by (simp_all add: stored_def)

lemma fill_done_fields [simp]:
  "memory (fill_done D k s) = memory s" "events (fill_done D k s) = events s"
  "g_regs (fill_done D k s) (memory_fill_trigger_index k) =
     Assign (mf_finished (memory_fill_config D)) 1
       (Assign (mf_trigger (memory_fill_config D)) 0 (g_regs s (memory_fill_trigger_index k)))"
  by (simp_all add: fill_done_def)

subsection \<open>Bit-fields\<close>

lemma bit_GetMask: "bit (GetMask f) n \<longleftrightarrow> fst f \<le> n \<and> n < fst f + snd f \<and> n < 32"
  by (auto simp add: GetMask_def bit_simps)

lemma bit_Value: "bit (Value f w) n \<longleftrightarrow> n < snd f \<and> fst f + n < 32 \<and> bit w (fst f + n)"
  by (auto simp add: Value_def bit_simps bit_GetMask dest: bit_imp_le_length)

lemma bit_Assign:
  "bit (Assign f v w) n \<longleftrightarrow>
     (if fst f \<le> n \<and> n < fst f + snd f \<and> n < 32 then bit v (n - fst f) else bit w n)"
  by (auto simp add: Assign_def bit_simps bit_GetMask dest: bit_imp_le_length)

lemma Value_eq: "Value (p, n) w = take_bit n (drop_bit p w)"
  by (rule bit_eqI) (auto simp add: bit_Value bit_simps dest: bit_imp_le_length)

lemma Value_Assign_same: "proper f \<Longrightarrow> Value f (Assign f v w) = take_bit (snd f) v"
  by (rule bit_eqI) (auto simp add: bit_Value bit_Assign bit_simps proper_def dest: bit_imp_le_length)

lemma Value_Assign_zero: "Value f (Assign f 0 w) = 0"
  by (rule bit_eqI) (auto simp add: bit_Value bit_Assign)

lemma Value_Assign_other: "disjoint f g \<Longrightarrow> Value f (Assign g v w) = Value f w"
  by (rule bit_eqI) (auto simp add: bit_Value bit_Assign disjoint_def)

lemma Value_Assign_one: "proper f \<Longrightarrow> Value f (Assign f 1 w) = 1"
  by (simp add: Value_Assign_same proper_def)

text \<open>Rewrite rules that evaluate bit-field accesses on numerals.\<close>

lemmas eval_bits = Value_eq take_bit_eq_mod drop_bit_eq_div push_bit_eq_mult mask_eq_exp_minus_1

subsection \<open>The fill loops\<close>

lemma rounds3: "ptr < end' \<Longrightarrow> (end' - ptr + 2) div 3 = Suc ((end' - (ptr + 3) + 2) div 3)"
  for ptr :: nat
proof -
  assume less: "ptr < end'"
  define d where "d = end' - ptr - 1"
  with less have d: "end' = ptr + 1 + d"
    by simp
  show ?thesis
  proof (cases "d < 2")
    case True
    then show ?thesis by (simp add: d)
  next
    case False
    then have "end' - (ptr + 3) + 2 = d" by (simp add: d)
    moreover have "end' - ptr + 2 = d + 3" by (simp add: d)
    ultimately show ?thesis by simp
  qed
qed

lemma rounds2: "ptr < end' \<Longrightarrow> (end' - ptr + 1) div 2 = Suc ((end' - (ptr + 2) + 1) div 2)"
  for ptr :: nat
proof -
  assume less: "ptr < end'"
  define d where "d = end' - ptr - 1"
  with less have d: "end' = ptr + 1 + d"
    by simp
  show ?thesis
  proof (cases "d < 1")
    case True
    then show ?thesis by (simp add: d)
  next
    case False
    then have "end' - (ptr + 2) + 1 = d" by (simp add: d)
    moreover have "end' - ptr + 1 = d + 2" by (simp add: d)
    ultimately show ?thesis by simp
  qed
qed

lemma mod_shift3: "ptr + 3 \<le> a \<Longrightarrow> (a - ptr) mod 3 = (a - (ptr + 3)) mod 3" for a :: nat
proof -
  assume "ptr + 3 \<le> a"
  then have "a - ptr = (a - (ptr + 3)) + 3" by simp
  then show ?thesis by (simp only: mod_add_self2)
qed

lemma mod_shift2: "ptr + 2 \<le> a \<Longrightarrow> (a - ptr) mod 2 = (a - (ptr + 2)) mod 2" for a :: nat
proof -
  assume "ptr + 2 \<le> a"
  then have "a - ptr = (a - (ptr + 2)) + 2" by simp
  then show ?thesis by (simp only: mod_add_self2)
qed

lemma mod4_offsets:
  "Suc (i * 4) mod 4 = 1" "Suc (Suc (i * 4)) mod 4 = 2" "Suc (Suc (Suc (i * 4))) mod 4 = 3"
  by presburger+

text \<open>
  What each loop leaves in memory: the 24-bit and the 16-bit loop run
  \<open>\<lceil>(end - ptr) / width\<rceil>\<close> rounds and store a whole pattern in each, the 32-bit loop
  stores \<open>len\<close> whole words.
\<close>

lemma fill_24bit_loop_at:
  "fill_24bit_loop r g b ptr end m a =
     (if ptr \<le> a \<and> a < ptr + 3 * ((end - ptr + 2) div 3) then [r, g, b] ! ((a - ptr) mod 3) else m a)"
proof (induction r g b ptr "end" m rule: fill_24bit_loop.induct)
  case (1 r g b ptr end' m)
  show ?case
  proof (cases "ptr < end'")
    case False
    then have "fill_24bit_loop r g b ptr end' m = m" "(end' - ptr + 2) div 3 = 0"
      by (simp_all add: fill_24bit_loop.simps)
    then show ?thesis by auto
  next
    case True
    note n = rounds3 [OF True]
    have unf: "fill_24bit_loop r g b ptr end' m a =
       (if ptr + 3 \<le> a \<and> a < ptr + 3 + 3 * ((end' - (ptr + 3) + 2) div 3)
        then [r, g, b] ! ((a - (ptr + 3)) mod 3) else (m(ptr := r, ptr + 1 := g, ptr + 2 := b)) a)"
      using True by (subst fill_24bit_loop.simps) (simp only: if_True "1.IH" [OF True])
    consider "a < ptr" | "a = ptr" | "a = ptr + 1" | "a = ptr + 2" | "ptr + 3 \<le> a" by linarith
    then show ?thesis
    proof cases
      case 1 then show ?thesis unfolding unf n by simp
    next
      case 2 then show ?thesis unfolding unf n by simp
    next
      case 3 then show ?thesis unfolding unf n by simp
    next
      case 4 then show ?thesis unfolding unf n by simp
    next
      case 5
      with mod_shift3 [OF 5] show ?thesis unfolding unf n by simp
    qed
  qed
qed

lemma fill_16bit_loop_at:
  "fill_16bit_loop v ptr end m a =
     (if ptr \<le> a \<and> a < ptr + 2 * ((end - ptr + 1) div 2)
      then [ucast v, ucast (drop_bit 8 v)] ! ((a - ptr) mod 2) else m a)"
proof (induction v ptr "end" m rule: fill_16bit_loop.induct)
  case (1 v ptr end' m)
  show ?case
  proof (cases "ptr < end'")
    case False
    then have "fill_16bit_loop v ptr end' m = m" "(end' - ptr + 1) div 2 = 0"
      by (simp_all add: fill_16bit_loop.simps)
    then show ?thesis by auto
  next
    case True
    note n = rounds2 [OF True]
    have unf: "fill_16bit_loop v ptr end' m a =
       (if ptr + 2 \<le> a \<and> a < ptr + 2 + 2 * ((end' - (ptr + 2) + 1) div 2)
        then [ucast v, ucast (drop_bit 8 v)] ! ((a - (ptr + 2)) mod 2) else (store_u16 v ptr m) a)"
      using True by (subst fill_16bit_loop.simps) (simp only: if_True "1.IH" [OF True])
    consider "a < ptr" | "a = ptr" | "a = ptr + 1" | "ptr + 2 \<le> a" by linarith
    then show ?thesis
    proof cases
      case 1 then show ?thesis unfolding unf n by (simp add: store_u16_def)
    next
      case 2 then show ?thesis unfolding unf n by (simp add: store_u16_def)
    next
      case 3 then show ?thesis unfolding unf n by (simp add: store_u16_def)
    next
      case 4
      with mod_shift2 [OF 4] show ?thesis unfolding unf n by (simp add: store_u16_def)
    qed
  qed
qed

lemma fill_32bit_loop_at:
  "fill_32bit_loop v start len i m a =
     (if start + 4 * i \<le> a \<and> a < start + 4 * len
      then [ucast v, ucast (drop_bit 8 v), ucast (drop_bit 16 v), ucast (drop_bit 24 v)] ! ((a - start) mod 4)
      else m a)"
proof (induction v start len i m rule: fill_32bit_loop.induct)
  case (1 v start len i m)
  show ?case
  proof (cases "i < len")
    case False
    then have "fill_32bit_loop v start len i m = m"
      by (simp add: fill_32bit_loop.simps)
    with False show ?thesis by auto
  next
    case True
    have unf: "fill_32bit_loop v start len i m a =
       (if start + 4 * (i + 1) \<le> a \<and> a < start + 4 * len
        then [ucast v, ucast (drop_bit 8 v), ucast (drop_bit 16 v), ucast (drop_bit 24 v)] ! ((a - start) mod 4)
        else (store_u32 v (start + i * 4) m) a)"
      using True by (subst fill_32bit_loop.simps) (simp only: if_True "1.IH" [OF True])
    from True have len: "start + 4 * i + 3 < start + 4 * len" by simp
    consider "a < start + 4 * i" | "a = start + 4 * i" | "a = start + 4 * i + 1" | "a = start + 4 * i + 2"
      | "a = start + 4 * i + 3" | "start + 4 * i + 4 \<le> a" by linarith
    then show ?thesis
    proof cases
      case 1 then show ?thesis unfolding unf by (simp add: store_u32_def)
    next
      case 2 with len show ?thesis unfolding unf by (simp add: store_u32_def mult.commute)
    next
      case 3 with len show ?thesis unfolding unf by (simp add: store_u32_def mult.commute mod4_offsets)
    next
      case 4 with len show ?thesis unfolding unf by (simp add: store_u32_def mult.commute mod4_offsets)
    next
      case 5 with len show ?thesis unfolding unf by (simp add: store_u32_def mult.commute mod4_offsets)
    next
      case 6 then show ?thesis unfolding unf by (simp add: store_u32_def)
    qed
  qed
qed

subsection \<open>The write path up to the fill engine\<close>

lemma Write_rejected:
  "NumIds D \<le> reg_index D addr0 \<or> T \<noteq> U32 \<Longrightarrow> Write D E T addr0 data s = Some (emit [LOG_ERROR] s)"
  by (simp add: Write_def reg_index_def Let_def)

text \<open>A word-sized write to a cell that is no trigger only stores and notifies the tracer.\<close>

lemma Write_plain:
  assumes "reg_index D addr0 < NumIds D"
    and "reg_index D addr0 \<noteq> memory_fill_trigger_index 0"
    and "reg_index D addr0 \<noteq> memory_fill_trigger_index 1"
    and "reg_index D addr0 \<noteq> dt_trigger (display_transfer_config D)"
    and "reg_index D addr0 \<noteq> cp_trigger (command_processor_config D)"
  shows "Write D E U32 addr0 data s = Some (emit (traced D E addr0 data) (stored D addr0 data s))"
  using assms unfolding Write_def Let_def reg_index_def [symmetric] stored_def [symmetric]
  by (simp add: traced_def reg_index_def)

text \<open>
  Two addresses with the same index \<^verbatim>\<open>addr / 4\<close> are the same register to \<^verbatim>\<open>Write\<close>: the
  address enters only through the index, and through the tracer's notification.
\<close>

lemma Write_same_cell:
  assumes "reg_index D addr0 = reg_index D addr1"
  shows "map_option g_regs (Write D E U32 addr0 data s) = map_option g_regs (Write D E U32 addr1 data s)"
    and "map_option memory (Write D E U32 addr0 data s) = map_option memory (Write D E U32 addr1 data s)"
  using assms unfolding Write_def Let_def reg_index_def
  by (auto split: option.splits)

lemma Write_fill:
  assumes "reg_index D addr0 = memory_fill_trigger_index k" "k < 2" "reg_index D addr0 < NumIds D"
  shows "Write D E U32 addr0 data s =
           Some (emit (traced D E addr0 data)
                   (memory_fill_case D E (memory_fill_trigger_index k) (stored D addr0 data s)))"
proof -
  have "k = 0 \<or> k = 1" using assms(2) by auto
  then have "reg_index D addr0 = memory_fill_trigger_index 0 \<or> reg_index D addr0 = memory_fill_trigger_index 1"
    using assms(1) by auto
  then show ?thesis
    using assms(1,3) unfolding Write_def Let_def reg_index_def [symmetric] stored_def [symmetric]
    by (simp add: traced_def reg_index_def)
qed

lemma fill_case_zero_start:
  assumes "k < 2"
    "Value (mf_trigger (memory_fill_config D)) (g_regs s (memory_fill_trigger_index k)) \<noteq> 0"
    "g_regs s (mf_address_start (memory_fill_config D) + 4 * k) = 0"
  shows "memory_fill_case D E (memory_fill_trigger_index k) s = fill_done D k s"
proof -
  have "k = 0 \<or> k = 1" using assms(1) by auto
  then show ?thesis
    using assms(2,3)
    by (auto simp add: memory_fill_case_def Let_def memory_fill_trigger_index_def fill_done_def)
qed

lemma fill_case_software:
  assumes "k < 2"
    "Value (mf_trigger (memory_fill_config D)) (g_regs s (memory_fill_trigger_index k)) \<noteq> 0"
    "g_regs s (mf_address_start (memory_fill_config D) + 4 * k) \<noteq> 0"
    "\<not> AccelerateFill E"
  shows "memory_fill_case D E (memory_fill_trigger_index k) s =
     fill_done D k
       (emit [RasterizerFlushAndInvalidateRegion
                (DecodeAddressRegister D (g_regs s (mf_address_start (memory_fill_config D) + 4 * k)))
                (DecodeAddressRegister D (g_regs s (mf_address_end (memory_fill_config D) + 4 * k))
                 - DecodeAddressRegister D (g_regs s (mf_address_start (memory_fill_config D) + 4 * k))),
              LOG_TRACE, SignalInterrupt (if k = 0 then PSC0 else PSC1)]
         (s\<lparr>memory := software_fill (memory_fill_config D) (fill_value D k s)
                (g_regs s (memory_fill_trigger_index k)) (fill_start D E k s) (fill_end D E k s)
                (memory s)\<rparr>))"
proof -
  have "k = 0 \<or> k = 1" using assms(1) by auto
  then show ?thesis
    using assms(2,3,4)
    by (auto simp add: memory_fill_case_def Let_def memory_fill_trigger_index_def fill_done_def emit_def
        fill_value_def fill_start_def fill_end_def)
qed

text \<open>The memory a software fill leaves behind, for a trigger write that starts one.\<close>

lemma Write_software_fill_memory:
  assumes "k < 2" "reg_index D addr0 = memory_fill_trigger_index k"
    "memory_fill_trigger_index k < NumIds D"
    "Value (mf_trigger (memory_fill_config D)) (ucast data) \<noteq> 0"
    "g_regs (stored D addr0 data s) (mf_address_start (memory_fill_config D) + 4 * k) \<noteq> 0"
    "\<not> AccelerateFill E"
  shows "\<exists>s'. Write D E U32 addr0 data s = Some s' \<and>
           memory s' = software_fill (memory_fill_config D) (fill_value D k (stored D addr0 data s))
                         (ucast data) (fill_start D E k (stored D addr0 data s))
                         (fill_end D E k (stored D addr0 data s)) (memory s)"
proof -
  let ?s1 = "stored D addr0 data s"
  have ctl: "g_regs ?s1 (memory_fill_trigger_index k) = ucast data"
    using assms(2) stored_fields(3) [of D addr0 data s] by simp
  have "memory_fill_case D E (memory_fill_trigger_index k) ?s1 =
     fill_done D k
       (emit [RasterizerFlushAndInvalidateRegion
                (DecodeAddressRegister D (g_regs ?s1 (mf_address_start (memory_fill_config D) + 4 * k)))
                (DecodeAddressRegister D (g_regs ?s1 (mf_address_end (memory_fill_config D) + 4 * k))
                 - DecodeAddressRegister D (g_regs ?s1 (mf_address_start (memory_fill_config D) + 4 * k))),
              LOG_TRACE, SignalInterrupt (if k = 0 then PSC0 else PSC1)]
         (?s1\<lparr>memory := software_fill (memory_fill_config D) (fill_value D k ?s1)
                (g_regs ?s1 (memory_fill_trigger_index k)) (fill_start D E k ?s1) (fill_end D E k ?s1)
                (memory ?s1)\<rparr>))"
    using assms(1,4,5,6) by (intro fill_case_software) (simp_all add: ctl)
  then show ?thesis
    using assms(1,2,3) by (simp add: Write_fill ctl)
qed


section \<open>The frame scheduler\<close>

lemma vblank_head_fields:
  "frame_count (vblank_head fs s) = frame_count s + 1"
  "last_skip_frame (vblank_head fs s) = g_skip_frame s"
  "g_skip_frame (vblank_head fs s) = ((frame_count s + 1) AND scast fs \<noteq> 0)"
  by (simp_all add: vblank_head_def Let_def)

lemma VBlankCallback_fields:
  "frame_count (VBlankCallback fs late s) = frame_count s + 1"
  "g_skip_frame (VBlankCallback fs late s) = ((frame_count s + 1) AND scast fs \<noteq> 0)"
  "events (VBlankCallback fs late s) = events s @ vblank_events fs late s"
  by (simp_all add: VBlankCallback_def vblank_head_fields vblank_head_def Let_def)

lemma firings_snoc:
  "firings fs (lates @ [late]) s = VBlankCallback fs late (firings fs lates s)"
  by (induction lates arbitrary: s) simp_all

lemma frame_count_firings:
  "frame_count (firings fs lates s) = frame_count s + of_nat (length lates)"
  by (induction lates arbitrary: s) (simp_all add: VBlankCallback_fields)

lemma and_one_odd: "((w::u64) AND 1 \<noteq> 0) = odd w"
  by (simp add: and_one_eq mod_2_eq_odd)

text \<open>With a stride of 1 the skip flag alternates, starting with a skipped frame.\<close>

lemma g_skip_firings_one:
  "frame_count s = 0 \<Longrightarrow> \<not> g_skip_frame s \<Longrightarrow>
   g_skip_frame (firings 1 lates s) = odd (length lates)"
proof (induction lates rule: rev_induct)
  case Nil
  then show ?case by simp
next
  case (snoc late lates)
  have "frame_count (firings 1 lates s) + 1 = (of_nat (Suc (length lates)) :: u64)"
    using snoc.prems by (simp add: frame_count_firings)
  then show ?case
    by (simp add: firings_snoc VBlankCallback_fields and_one_odd del: of_nat_Suc)
qed

lemma Init_timing:
  "frame_count (Init D s) = 0" "\<not> g_skip_frame (Init D s)" "\<not> last_skip_frame (Init D s)"
  by (simp_all add: Init_def Let_def)

lemma sint_vblank_delay: "sint (vblank_delay late) = 4468724 - sint late"
proof -
  have up: "sint (scast late :: u64) = sint late"
    by (rule sint_up_scast) (simp add: is_up)
  have lo: "- (2 ^ 31) \<le> sint late" and hi: "sint late < 2 ^ 31"
    using sint_ge [of late] sint_lt [of late] by simp_all
  have "sint (vblank_delay late) = signed_take_bit 63 (4468724 - sint late)"
    by (simp add: vblank_delay_def frame_ticks_def sint_word_ariths up)
  also have "\<dots> = 4468724 - sint late"
    using lo hi by (simp add: signed_take_bit_int_eq_self)
  finally show ?thesis .
qed

text \<open>
  Claim C6, as stated: with a frame-skip stride of 0 every firing swaps buffers, and with a
  stride of 1 a swap is emitted on every other firing starting from the first firing.
  The first half holds. The second fails at the very first firing after initialisation:
  \<^verbatim>\<open>frame_count\<close> becomes 1, \<^verbatim>\<open>last_skip_frame\<close> is \<open>False\<close>, \<^verbatim>\<open>g_skip_frame\<close> becomes
  \<open>True\<close>, and \<^verbatim>\<open>(frame_skip != 1) ^ last_skip_frame\<close> is false, so nothing is swapped.
\<close>

theorem C6_first_firing_does_not_swap: "\<not> swaps_at 1 [0] (Init ex_regs zeroed) 0"
  by (simp add: swaps_at_def vblank_events_def vblank_swap_def vblank_head_fields Init_timing)

text \<open>
  Claim C6, amended: in every run of the scheduler, with a stride of 0 every firing swaps
  buffers; with a stride of 1, starting from the timing state that \<^verbatim>\<open>Init\<close> leaves
  (\<^verbatim>\<open>frame_count = 0\<close>, \<^verbatim>\<open>g_skip_frame = false\<close>), a swap is emitted on every other firing starting from the second
  one: exactly on the firings with an odd index \<open>k\<close>, counted from 0.
\<close>

theorem C6_frame_skip_swaps:
  "k < length lates \<Longrightarrow>
   swaps_at 0 lates s k \<and>
   (frame_count s = 0 \<and> \<not> g_skip_frame s \<longrightarrow> (swaps_at 1 lates s k \<longleftrightarrow> odd k))"
proof (intro conjI impI)
  show "swaps_at 0 lates s k"
    by (simp add: swaps_at_def vblank_events_def vblank_swap_def)
next
  assume k: "k < length lates" and init: "frame_count s = 0 \<and> \<not> g_skip_frame s"
  let ?t = "firings 1 (take k lates) s"
  have g: "g_skip_frame ?t = odd k"
    using k init by (simp add: g_skip_firings_one)
  have fc: "frame_count ?t + 1 = (of_nat (Suc k) :: u64)"
    using k init by (simp add: frame_count_firings)
  show "swaps_at 1 lates s k \<longleftrightarrow> odd k"
    by (simp add: swaps_at_def vblank_events_def vblank_swap_def vblank_head_fields g fc and_one_odd
        del: of_nat_Suc)
qed

theorem C6_frame_skip_swaps_witness:
  "swaps_at 0 [0, 0, 0] (Init ex_regs zeroed) 1 \<and> swaps_at 1 [0, 0, 0] (Init ex_regs zeroed) 1
   \<and> swaps_at 0 [0, 0, 0] (Init ex_regs zeroed) 2 \<and> \<not> swaps_at 1 [0, 0, 0] (Init ex_regs zeroed) 2"
  using C6_frame_skip_swaps [of 1 "[0, 0, 0]" "Init ex_regs zeroed"]
    C6_frame_skip_swaps [of 2 "[0, 0, 0]" "Init ex_regs zeroed"]
  by (simp add: Init_timing)

text \<open>
  Claim C7, as stated: the delay of the rescheduled event is never negative, being clamped
  when the lateness exceeds the period. There is no clamp: a callback that is one cycle
  later than a whole period (\<open>4468724 + 1\<close> cycles) schedules the next event with the delay
  \<open>2^64 - 1\<close>, which is \<open>-1\<close> as a signed 64-bit number.
\<close>

theorem C7_delay_wraps:
  "vblank_events 0 4468725 zeroed =
     [SwapBuffers, SignalInterrupt PDC0, SignalInterrupt PDC1, ScheduleEvent 0xFFFFFFFFFFFFFFFF]
   \<and> sint (vblank_delay 4468725) = - 1"
  by (simp add: vblank_events_def vblank_swap_def vblank_delay_def frame_ticks_def)

text \<open>
  Claim C7, amended: on every firing the callback reschedules the event exactly once, as its
  last action, with the delay \<^verbatim>\<open>frame_ticks - cycles_late\<close> computed modulo \<open>2^64\<close> and not
  clamped; as a signed 64-bit number the delay is exactly \<open>4468724 - cycles_late\<close>, for
  every \<^verbatim>\<open>int\<close> value of \<^verbatim>\<open>cycles_late\<close>.
\<close>

theorem C7_reschedules_once:
  "events (VBlankCallback frame_skip cycles_late s) = events s @ vblank_events frame_skip cycles_late s
   \<and> length (filter is_ScheduleEvent (vblank_events frame_skip cycles_late s)) = 1
   \<and> last (vblank_events frame_skip cycles_late s) = ScheduleEvent (vblank_delay cycles_late)
   \<and> sint (vblank_delay cycles_late) = 4468724 - sint cycles_late"
  by (simp add: VBlankCallback_fields sint_vblank_delay) (simp add: vblank_events_def)

section \<open>Register access\<close>

text \<open>
  Claim C9, as stated: an access that is not word-sized, or whose address is misaligned or
  outside the mapped region, is a no-op. Neither function tests the alignment: the index is
  \<^verbatim>\<open>addr / 4\<close>, so a word-sized write at offset 5 stores into cell 1, and a word-sized read
  at offset 5 overwrites the caller's variable with cell 1.
\<close>

theorem C9_misaligned_access_is_performed:
  "Write ex_regs ex_hooks U32 0x1EF00005 0x1234 zeroed = Some (with_regs [(1, 0x1234)] zeroed)
   \<and> fst (Read ex_regs U32 0 0x1EF00005 (with_regs [(1, 0x1234)] zeroed)) = 0x1234"
  by (simp add: Write_def Read_def ex_regs_def ex_hooks_def zeroed_def Let_def
      memory_fill_trigger_index_def ex_transfer_def ex_command_def)

text \<open>
  Claim C9, amended: for every register access that is not word-sized or whose index
  \<^verbatim>\<open>addr / 4\<close> is outside the register file, the operation is a no-op apart from the logged
  error: \<^verbatim>\<open>Write\<close> returns and leaves every register cell and all of memory unchanged, and
  \<^verbatim>\<open>Read\<close> leaves the caller's variable unchanged. A word-sized access inside the register
  file is carried out on the cell \<^verbatim>\<open>addr / 4\<close> whatever the alignment of the address:
  \<^verbatim>\<open>Read\<close> returns that cell; \<^verbatim>\<open>Write\<close> to a cell that is no trigger stores the data into
  that cell and changes no other cell and no memory; and for every cell, trigger or not,
  \<^verbatim>\<open>Write\<close> at any two addresses with the same index leaves the same registers and the
  same memory.
\<close>

theorem C9_unsupported_access_is_noop:
  "(NumIds D \<le> reg_index D addr0 \<or> T \<noteq> U32 \<longrightarrow>
      (\<exists>s'. Write D E T addr0 data s = Some s' \<and> g_regs s' = g_regs s \<and> memory s' = memory s
             \<and> events s' = events s @ [LOG_ERROR])
      \<and> fst (Read D T var addr0 s) = var
      \<and> g_regs (snd (Read D T var addr0 s)) = g_regs s)
   \<and> (reg_index D addr0 < NumIds D \<longrightarrow>
      fst (Read D U32 var addr0 s) = ucast (g_regs s (reg_index D addr0)))
   \<and> (reg_index D addr0 < NumIds D
        \<and> reg_index D addr0 \<noteq> memory_fill_trigger_index 0
        \<and> reg_index D addr0 \<noteq> memory_fill_trigger_index 1
        \<and> reg_index D addr0 \<noteq> dt_trigger (display_transfer_config D)
        \<and> reg_index D addr0 \<noteq> cp_trigger (command_processor_config D) \<longrightarrow>
      (\<exists>s'. Write D E U32 addr0 data s = Some s'
             \<and> g_regs s' = (g_regs s)(reg_index D addr0 := ucast data)
             \<and> memory s' = memory s
             \<and> events s' = events s @ traced D E addr0 data))
   \<and> (reg_index D addr0 = reg_index D addr1 \<longrightarrow>
      map_option g_regs (Write D E U32 addr0 data s) = map_option g_regs (Write D E U32 addr1 data s)
      \<and> map_option memory (Write D E U32 addr0 data s)
          = map_option memory (Write D E U32 addr1 data s))"
proof (intro conjI impI)
  assume "NumIds D \<le> reg_index D addr0 \<or> T \<noteq> U32"
  then show "\<exists>s'. Write D E T addr0 data s = Some s' \<and> g_regs s' = g_regs s \<and> memory s' = memory s
             \<and> events s' = events s @ [LOG_ERROR]"
    and "fst (Read D T var addr0 s) = var"
    and "g_regs (snd (Read D T var addr0 s)) = g_regs s"
    by (simp add: Write_rejected, auto simp add: Read_def reg_index_def Let_def)
next
  assume "reg_index D addr0 < NumIds D"
  then show "fst (Read D U32 var addr0 s) = ucast (g_regs s (reg_index D addr0))"
    by (simp add: Read_def reg_index_def Let_def)
next
  assume "reg_index D addr0 < NumIds D
        \<and> reg_index D addr0 \<noteq> memory_fill_trigger_index 0
        \<and> reg_index D addr0 \<noteq> memory_fill_trigger_index 1
        \<and> reg_index D addr0 \<noteq> dt_trigger (display_transfer_config D)
        \<and> reg_index D addr0 \<noteq> cp_trigger (command_processor_config D)"
  then have "Write D E U32 addr0 data s = Some (emit (traced D E addr0 data) (stored D addr0 data s))"
    by (intro Write_plain) simp_all
  then show "\<exists>s'. Write D E U32 addr0 data s = Some s'
             \<and> g_regs s' = (g_regs s)(reg_index D addr0 := ucast data)
             \<and> memory s' = memory s
             \<and> events s' = events s @ traced D E addr0 data"
    by (simp add: stored_def)
next
  assume same: "reg_index D addr0 = reg_index D addr1"
  show "map_option g_regs (Write D E U32 addr0 data s) = map_option g_regs (Write D E U32 addr1 data s)"
    using same by (rule Write_same_cell(1))
  show "map_option memory (Write D E U32 addr0 data s) = map_option memory (Write D E U32 addr1 data s)"
    using same by (rule Write_same_cell(2))
qed

theorem C9_unsupported_access_is_noop_witness:
  "(\<exists>s'. Write ex_regs ex_hooks U16 0x1EF00004 0x1234 zeroed = Some s' \<and> g_regs s' = g_regs zeroed
          \<and> memory s' = memory zeroed \<and> events s' = [LOG_ERROR])
   \<and> fst (Read ex_regs U16 7 0x1EF00004 zeroed) = 7
   \<and> fst (Read ex_regs U32 7 0x1EF04000 zeroed) = 7
   \<and> fst (Read ex_regs U32 7 0x1EF00005 (with_regs [(1, 0x1234)] zeroed)) = 0x1234
   \<and> (\<exists>s'. Write ex_regs ex_hooks U32 0x1EF00005 0x1234 zeroed = Some s'
          \<and> g_regs s' = (\<lambda>i. 0)(1 := 0x1234) \<and> memory s' = memory zeroed \<and> events s' = [])
   \<and> map_option g_regs (Write ex_regs ex_hooks U32 0x1EF0001F 1 zeroed)
       = map_option g_regs (Write ex_regs ex_hooks U32 0x1EF0001C 1 zeroed)"
proof -
  have rejected: "(\<exists>s'. Write ex_regs ex_hooks U16 0x1EF00004 0x1234 zeroed = Some s'
          \<and> g_regs s' = g_regs zeroed \<and> memory s' = memory zeroed \<and> events s' = [LOG_ERROR])
     \<and> fst (Read ex_regs U16 7 0x1EF00004 zeroed) = 7
     \<and> fst (Read ex_regs U32 7 0x1EF04000 zeroed) = 7
     \<and> fst (Read ex_regs U32 7 0x1EF00005 (with_regs [(1, 0x1234)] zeroed)) = 0x1234"
    using C9_unsupported_access_is_noop [of ex_regs "0x1EF00004" U16 ex_hooks "0x1234" zeroed 7
        "0x1EF00004"]
      C9_unsupported_access_is_noop [of ex_regs "0x1EF04000" U32 ex_hooks "0x1234" zeroed 7
        "0x1EF04000"]
      C9_unsupported_access_is_noop [of ex_regs "0x1EF00005" U32 ex_hooks "0x1234"
        "with_regs [(1, 0x1234)] zeroed" 7 "0x1EF00004"]
    by (simp add: reg_index_def ex_regs_def zeroed_def)
  have idx: "reg_index ex_regs 0x1EF00005 = 1" "reg_index ex_regs 0x1EF0001F = 7"
    "reg_index ex_regs 0x1EF0001C = 7"
    by (simp_all add: reg_index_def ex_regs_def)
  have decl: "NumIds ex_regs = 0x1000" "dt_trigger (display_transfer_config ex_regs) = 0x306"
    "cp_trigger (command_processor_config ex_regs) = 0x63C"
    by (simp_all add: ex_regs_def ex_transfer_def ex_command_def)
  have stored: "\<exists>s'. Write ex_regs ex_hooks U32 0x1EF00005 0x1234 zeroed = Some s'
          \<and> g_regs s' = (\<lambda>i. 0)(1 := 0x1234) \<and> memory s' = memory zeroed \<and> events s' = []"
    using C9_unsupported_access_is_noop [of ex_regs "0x1EF00005" U32 ex_hooks "0x1234" zeroed 7
        "0x1EF00004"]
    by (simp add: idx decl memory_fill_trigger_index_def traced_def ex_hooks_def zeroed_def)
  have same: "map_option g_regs (Write ex_regs ex_hooks U32 0x1EF0001F 1 zeroed)
       = map_option g_regs (Write ex_regs ex_hooks U32 0x1EF0001C 1 zeroed)"
    using C9_unsupported_access_is_noop [of ex_regs "0x1EF0001F" U32 ex_hooks 1 zeroed 7 "0x1EF0001C"]
    by (simp add: idx)
  show ?thesis
    using rejected stored same by blast
qed


section \<open>The memory-fill engine\<close>

text \<open>
  Claim C1, as stated: a fill trigger write whose configuration has \<^verbatim>\<open>address_start\<close> equal
  to zero writes no bytes but still clears the trigger, sets \<^verbatim>\<open>finished\<close> and signals
  \<^verbatim>\<open>PSC0\<close> or \<^verbatim>\<open>PSC1\<close>. The two calls of \<^verbatim>\<open>SignalInterrupt\<close> are inside the block guarded by
  \<^verbatim>\<open>if (config.address_start)\<close>: with all registers zero, writing 1 to the trigger of
  engine A (index 7) emits no event at all.
\<close>

theorem C1_zero_start_signals_nothing:
  "map_option events (Write ex_regs ex_hooks U32 0x1EF0001C 1 zeroed) = Some []"
  by (simp add: Write_def ex_regs_def ex_hooks_def zeroed_def Let_def memory_fill_trigger_index_def
      memory_fill_case_def ex_fill_def eval_bits)

text \<open>
  Claim C1, amended: for every memory-fill trigger write (engine \<open>k\<close>, A for 0 and B for 1)
  whose configuration has \<^verbatim>\<open>address_start\<close> equal to zero, the fill engine writes no bytes to
  memory and signals no interrupt, but still performs the flag update: it clears the
  trigger bit and sets the finished flag. (The only event of the write is the tracer's
  notification, if a recorder is attached.) The two flags are assumed to be different bits
  of the control word.
\<close>

theorem C1_fill_zero_start:
  assumes "k < 2"
    and "reg_index D addr0 = memory_fill_trigger_index k"
    and "memory_fill_trigger_index k < NumIds D"
    and "Value (mf_trigger (memory_fill_config D)) (ucast data) \<noteq> 0"
    and "g_regs (stored D addr0 data s) (mf_address_start (memory_fill_config D) + 4 * k) = 0"
    and "proper (mf_finished (memory_fill_config D))"
    and "disjoint (mf_trigger (memory_fill_config D)) (mf_finished (memory_fill_config D))"
  shows "\<exists>s'. Write D E U32 addr0 data s = Some s'
           \<and> memory s' = memory s
           \<and> events s' = events s @ traced D E addr0 data
           \<and> (\<forall>i. SignalInterrupt i \<notin> set (traced D E addr0 data))
           \<and> Value (mf_trigger (memory_fill_config D)) (g_regs s' (memory_fill_trigger_index k)) = 0
           \<and> Value (mf_finished (memory_fill_config D)) (g_regs s' (memory_fill_trigger_index k)) = 1"
proof -
  let ?s1 = "stored D addr0 data s"
  have ctl: "g_regs ?s1 (memory_fill_trigger_index k) = ucast data"
    using assms(2) stored_fields(3) [of D addr0 data s] by simp
  have fin: "memory_fill_case D E (memory_fill_trigger_index k) ?s1 = fill_done D k ?s1"
    using assms(1,4,5) by (intro fill_case_zero_start) (simp_all add: ctl)
  have w: "Write D E U32 addr0 data s = Some (emit (traced D E addr0 data) (fill_done D k ?s1))"
    using assms(1,2,3) by (simp add: Write_fill fin)
  have "SignalInterrupt i \<notin> set (traced D E addr0 data)" for i
    by (simp add: traced_def)
  then show ?thesis
    using assms(6,7) by (simp add: w Value_Assign_one Value_Assign_other Value_Assign_zero)
qed

theorem C1_fill_zero_start_witness:
  "\<exists>s'. Write ex_regs ex_hooks U32 0x1EF0002C 1 zeroed = Some s'
      \<and> memory s' = memory zeroed \<and> events s' = []
      \<and> Value (0, 1) (g_regs s' 11) = 0 \<and> Value (1, 1) (g_regs s' 11) = 1"
  using C1_fill_zero_start [of 1 ex_regs "0x1EF0002C" 1 zeroed ex_hooks]
  by (simp add: reg_index_def stored_def traced_def memory_fill_trigger_index_def proper_def
      disjoint_def ex_regs_def ex_hooks_def ex_fill_def zeroed_def eval_bits)

text \<open>
  Claim C8, as stated: when both the 24-bit and the 32-bit selector are set, the range is
  filled with the 32-bit pattern. The code tests \<^verbatim>\<open>fill_24bit\<close> first. Engine A, range
  \<open>[8, 32)\<close>, pattern word \<open>0x44332211\<close>, control word \<open>0x301\<close> (trigger and both
  selectors): memory holds the three-byte pattern \<open>11 22 33\<close> repeated, where the 32-bit
  pattern would have put \<open>44\<close> at address 11.
\<close>

theorem C8_both_flags_fill_24bit:
  "bytes_after (Write ex_regs ex_hooks U32 0x1EF0001C 0x301
      (with_regs [(4, 1), (5, 4), (6, 0x44332211)] zeroed)) 8 8
   = [0x11, 0x22, 0x33, 0x11, 0x22, 0x33, 0x11, 0x22]"
  by (simp add: Write_def ex_regs_def ex_hooks_def zeroed_def Let_def memory_fill_trigger_index_def
      memory_fill_case_def ex_fill_def eval_bits Assign_def GetMask_def emit_def software_fill_def
      bytes_after_def upt_rec fill_24bit_loop.simps)

text \<open>
  Claim C8, amended: for every fill operation of the software path whose configuration has
  both the 24-bit and the 32-bit selector set, the engine fills the range with the 24-bit
  pattern: every byte at \<open>a\<close> in \<open>[start, end)\<close> is byte \<open>(a - start) mod 3\<close> of
  \<open>{R, G, B}\<close>. The 24-bit selector takes precedence over the 32-bit selector; the 32-bit
  pattern is used when only the 32-bit selector is set, the 16-bit pattern when neither is.
\<close>

theorem C8_fill_precedence:
  assumes "k < 2"
    and "reg_index D addr0 = memory_fill_trigger_index k"
    and "memory_fill_trigger_index k < NumIds D"
    and "Value (mf_trigger (memory_fill_config D)) (ucast data) \<noteq> 0"
    and "g_regs (stored D addr0 data s) (mf_address_start (memory_fill_config D) + 4 * k) \<noteq> 0"
    and "\<not> AccelerateFill E"
    and "fill_start D E k (stored D addr0 data s) \<le> a"
    and "a < fill_end D E k (stored D addr0 data s)"
  shows "\<exists>s'. Write D E U32 addr0 data s = Some s' \<and>
     (Value (mf_fill_24bit (memory_fill_config D)) (ucast data) \<noteq> 0 \<and>
      Value (mf_fill_32bit (memory_fill_config D)) (ucast data) \<noteq> 0 \<longrightarrow>
        memory s' a = pattern_24bit (memory_fill_config D) (fill_value D k (stored D addr0 data s))
                        ! ((a - fill_start D E k (stored D addr0 data s)) mod 3)) \<and>
     (Value (mf_fill_24bit (memory_fill_config D)) (ucast data) = 0 \<and>
      Value (mf_fill_32bit (memory_fill_config D)) (ucast data) \<noteq> 0 \<and>
      a + 4 \<le> fill_end D E k (stored D addr0 data s) \<longrightarrow>
        memory s' a = pattern_32bit (fill_value D k (stored D addr0 data s))
                        ! ((a - fill_start D E k (stored D addr0 data s)) mod 4)) \<and>
     (Value (mf_fill_24bit (memory_fill_config D)) (ucast data) = 0 \<and>
      Value (mf_fill_32bit (memory_fill_config D)) (ucast data) = 0 \<longrightarrow>
        memory s' a = pattern_16bit (memory_fill_config D) (fill_value D k (stored D addr0 data s))
                        ! ((a - fill_start D E k (stored D addr0 data s)) mod 2))"
proof -
  let ?s1 = "stored D addr0 data s"
  let ?start = "fill_start D E k ?s1" and ?end = "fill_end D E k ?s1"
  obtain s' where w: "Write D E U32 addr0 data s = Some s'"
    and m: "memory s' = software_fill (memory_fill_config D) (fill_value D k ?s1) (ucast data)
                          ?start ?end (memory s)"
    using Write_software_fill_memory [OF assms(1-6)] by blast
  have lt: "?start < ?end"
    using assms(7,8) by simp
  have in3: "a < ?start + 3 * ((?end - ?start + 2) div 3)"
    using assms(7,8) by (simp add: less_mult_imp_div_less)
  have in2: "a < ?start + 2 * ((?end - ?start + 1) div 2)"
    using assms(7,8) by presburger
  have in4: "a < ?start + 4 * ((?end - ?start) div 4)" if "a + 4 \<le> ?end"
    using assms(7) that by presburger
  show ?thesis
    using assms(7) lt in3 in2 in4
    by (simp add: w m software_fill_def fill_24bit_loop_at fill_16bit_loop_at fill_32bit_loop_at
        pattern_24bit_def pattern_32bit_def pattern_16bit_def)
qed

theorem C8_fill_precedence_witness:
  "\<exists>s'. Write ex_regs ex_hooks U32 0x1EF0001C 0x301
            (with_regs [(4, 1), (5, 4), (6, 0x44332211)] zeroed) = Some s'
      \<and> memory s' 11 = 0x11"
  using C8_fill_precedence [of 0 ex_regs "0x1EF0001C" "0x301"
      "with_regs [(4, 1), (5, 4), (6, 0x44332211)] zeroed" ex_hooks 11]
  by (simp add: reg_index_def stored_def memory_fill_trigger_index_def fill_start_def fill_end_def
      fill_value_def pattern_24bit_def ex_regs_def ex_hooks_def ex_fill_def zeroed_def eval_bits)


text \<open>
  Claim C10: for a fill whose range length is not a multiple of the width of the selected
  pattern, the software path writes beyond \<^verbatim>\<open>end\<close>. The 24-bit loop stores a whole 3-byte
  tuple whenever \<^verbatim>\<open>ptr < end\<close>: when the length leaves remainder 1 the two bytes at
  \<open>end\<close> and \<open>end + 1\<close> receive G and B, when it leaves remainder 2 the byte at \<open>end\<close>
  receives B; nothing from \<open>end + 2\<close> on is touched. The 16-bit loop stores the high byte
  of the pattern at \<open>end\<close> when the length is odd and touches nothing from \<open>end + 1\<close> on.
  The 32-bit path stores whole words only and touches nothing from \<open>end\<close> on.
\<close>

theorem C10_fill_overrun:
  assumes "k < 2"
    and "reg_index D addr0 = memory_fill_trigger_index k"
    and "memory_fill_trigger_index k < NumIds D"
    and "Value (mf_trigger (memory_fill_config D)) (ucast data) \<noteq> 0"
    and "g_regs (stored D addr0 data s) (mf_address_start (memory_fill_config D) + 4 * k) \<noteq> 0"
    and "\<not> AccelerateFill E"
    and "fill_start D E k (stored D addr0 data s) = start"
    and "fill_end D E k (stored D addr0 data s) = end"
    and "start < end"
    and "pattern_24bit (memory_fill_config D) (fill_value D k (stored D addr0 data s)) = rgb"
    and "pattern_16bit (memory_fill_config D) (fill_value D k (stored D addr0 data s)) = lh"
  shows "\<exists>s'. Write D E U32 addr0 data s = Some s' \<and>
     (Value (mf_fill_24bit (memory_fill_config D)) (ucast data) \<noteq> 0 \<longrightarrow>
        ((end - start) mod 3 = 1 \<longrightarrow> memory s' end = rgb ! 1 \<and> memory s' (end + 1) = rgb ! 2) \<and>
        ((end - start) mod 3 = 2 \<longrightarrow> memory s' end = rgb ! 2) \<and>
        (\<forall>a. end + 2 \<le> a \<longrightarrow> memory s' a = memory s a)) \<and>
     (Value (mf_fill_24bit (memory_fill_config D)) (ucast data) = 0 \<and>
      Value (mf_fill_32bit (memory_fill_config D)) (ucast data) = 0 \<longrightarrow>
        ((end - start) mod 2 = 1 \<longrightarrow> memory s' end = lh ! 1) \<and>
        (\<forall>a. end + 1 \<le> a \<longrightarrow> memory s' a = memory s a)) \<and>
     (Value (mf_fill_24bit (memory_fill_config D)) (ucast data) = 0 \<and>
      Value (mf_fill_32bit (memory_fill_config D)) (ucast data) \<noteq> 0 \<longrightarrow>
        (\<forall>a. end \<le> a \<longrightarrow> memory s' a = memory s a))"
proof -
  let ?s1 = "stored D addr0 data s"
  obtain s' where w: "Write D E U32 addr0 data s = Some s'"
    and m: "memory s' = software_fill (memory_fill_config D) (fill_value D k ?s1) (ucast data)
                          start end (memory s)"
    using Write_software_fill_memory [OF assms(1-6)] assms(7,8) by auto
  define n where "n = end - start"
  have e: "end = start + n" and n: "0 < n"
    using assms(9) by (simp_all add: n_def)
  have up3: "3 * ((n + 2) div 3) \<le> n + 2" and up2: "2 * ((n + 1) div 2) \<le> n + 1"
    and up4: "4 * (n div 4) \<le> n"
    by simp_all
  have r1: "n < 3 * ((n + 2) div 3) \<and> n + 1 < 3 * ((n + 2) div 3)" if "n mod 3 = 1"
    using that by presburger
  have r2: "n < 3 * ((n + 2) div 3)" if "n mod 3 = 2"
    using that by presburger
  have o1: "n < 2 * ((n + 1) div 2)" if "n mod 2 = 1"
    using that by presburger
  have i3: "Suc n mod 3 = 2" if "n mod 3 = 1"
    using that by presburger
  have p24: "?thesis" if "Value (mf_fill_24bit (memory_fill_config D)) (ucast data) \<noteq> 0"
    using that up3 r1 r2 i3 assms(10)
    by (auto simp add: w m e software_fill_def fill_24bit_loop_at pattern_24bit_def)
  have p16: "?thesis" if "Value (mf_fill_24bit (memory_fill_config D)) (ucast data) = 0"
      "Value (mf_fill_32bit (memory_fill_config D)) (ucast data) = 0"
    using that up2 o1 assms(11)
    by (auto simp add: w m e software_fill_def fill_16bit_loop_at pattern_16bit_def)
  have p32: "?thesis" if "Value (mf_fill_24bit (memory_fill_config D)) (ucast data) = 0"
      "Value (mf_fill_32bit (memory_fill_config D)) (ucast data) \<noteq> 0"
    using that up4 n
    by (auto simp add: w m e software_fill_def fill_32bit_loop_at)
  show ?thesis
    using p24 p16 p32 by blast
qed

theorem C10_fill_overrun_witness:
  "(\<exists>s'. Write ex_regs ex_hooks U32 0x1EF0001C 0x101
            (with_regs [(4, 1), (5, 3), (6, 0x332211)] zeroed) = Some s'
       \<and> memory s' 24 = 0x22 \<and> memory s' 25 = 0x33 \<and> memory s' 26 = 0)
   \<and> (\<exists>s'. Write (ex_regs\<lparr>DecodeAddressRegister := (\<lambda>r. r)\<rparr>) ex_hooks U32 0x1EF0001C 0x001
            (with_regs [(4, 8), (5, 11), (6, 0x2211)] zeroed) = Some s'
       \<and> memory s' 11 = 0x22 \<and> memory s' 12 = 0)
   \<and> (\<exists>s'. Write (ex_regs\<lparr>DecodeAddressRegister := (\<lambda>r. r)\<rparr>) ex_hooks U32 0x1EF0001C 0x201
            (with_regs [(4, 8), (5, 15), (6, 0x44332211)] zeroed) = Some s'
       \<and> memory s' 15 = 0 \<and> memory s' 16 = 0)"
proof -
  note defs = reg_index_def stored_def memory_fill_trigger_index_def fill_start_def fill_end_def
      fill_value_def pattern_24bit_def pattern_16bit_def ex_regs_def ex_hooks_def ex_fill_def
      zeroed_def eval_bits
  have "\<exists>s'. Write ex_regs ex_hooks U32 0x1EF0001C 0x101
            (with_regs [(4, 1), (5, 3), (6, 0x332211)] zeroed) = Some s'
       \<and> memory s' 24 = 0x22 \<and> memory s' 25 = 0x33 \<and> (\<forall>a. 26 \<le> a \<longrightarrow> memory s' a = 0)"
    using C10_fill_overrun [of 0 ex_regs "0x1EF0001C" "0x101"
      "with_regs [(4, 1), (5, 3), (6, 0x332211)] zeroed" ex_hooks 8 24 "[0x11, 0x22, 0x33]" "[0x11, 0x22]"]
    by (simp add: defs)
  moreover have "\<exists>s'. Write (ex_regs\<lparr>DecodeAddressRegister := (\<lambda>r. r)\<rparr>) ex_hooks U32 0x1EF0001C 0x001
            (with_regs [(4, 8), (5, 11), (6, 0x2211)] zeroed) = Some s'
       \<and> memory s' 11 = 0x22 \<and> (\<forall>a. 12 \<le> a \<longrightarrow> memory s' a = 0)"
    using C10_fill_overrun [of 0 "ex_regs\<lparr>DecodeAddressRegister := (\<lambda>r. r)\<rparr>" "0x1EF0001C" "0x001"
      "with_regs [(4, 8), (5, 11), (6, 0x2211)] zeroed" ex_hooks 8 11 "[0x11, 0x22, 0]" "[0x11, 0x22]"]
    by (simp add: defs)
  moreover have "\<exists>s'. Write (ex_regs\<lparr>DecodeAddressRegister := (\<lambda>r. r)\<rparr>) ex_hooks U32 0x1EF0001C 0x201
            (with_regs [(4, 8), (5, 15), (6, 0x44332211)] zeroed) = Some s'
       \<and> (\<forall>a. 15 \<le> a \<longrightarrow> memory s' a = 0)"
    using C10_fill_overrun [of 0 "ex_regs\<lparr>DecodeAddressRegister := (\<lambda>r. r)\<rparr>" "0x1EF0001C" "0x201"
      "with_regs [(4, 8), (5, 15), (6, 0x44332211)] zeroed" ex_hooks 8 15 "[0x11, 0x22, 0x33]" "[0x11, 0x22]"]
    by (simp add: defs)
  ultimately show ?thesis
    by fastforce
qed


section \<open>The transfer engine\<close>

subsection \<open>The write path up to the transfer engine\<close>

lemma Write_display:
  assumes "reg_index D addr0 = dt_trigger (display_transfer_config D)"
    and "dt_trigger (display_transfer_config D) < NumIds D"
    and "dt_trigger (display_transfer_config D) \<noteq> memory_fill_trigger_index 0"
    and "dt_trigger (display_transfer_config D) \<noteq> memory_fill_trigger_index 1"
  shows "Write D E U32 addr0 data s =
           map_option (emit (traced D E addr0 data)) (display_transfer_case D E (stored D addr0 data s))"
proof -
  have "Write D E U32 addr0 data s =
      (case display_transfer_case D E (stored D addr0 data s) of
         None \<Rightarrow> None | Some s2 \<Rightarrow> Some (emit (traced D E addr0 data) s2))"
    using assms unfolding Write_def Let_def reg_index_def [symmetric] stored_def [symmetric]
    by (auto simp add: traced_def reg_index_def split: option.splits)
  then show ?thesis
    by (simp split: option.splits)
qed

lemma display_case_software:
  assumes "g_regs s (dt_trigger (display_transfer_config D)) AND 1 \<noteq> 0"
    and "\<not> AccelerateDisplayTransfer E"
  shows "display_transfer_case D E s =
     (case display_transfer_software D E (emit (debug_event E) s) of
        None \<Rightarrow> None
      | Some (Break s2) \<Rightarrow> Some s2
      | Some (Proceed s2) \<Rightarrow>
          Some (emit [SignalInterrupt PPF]
                  (s2\<lparr>g_regs := (g_regs s2)(dt_trigger (display_transfer_config D) := 0)\<rparr>)))"
  using assms by (simp add: display_transfer_case_def Let_def debug_event_def)

subsection \<open>The texture-copy loop\<close>

lemma row_same:
  fixes p :: nat
  assumes "p mod W + j < W"
  shows "(p + j) div W = p div W" "(p + j) mod W = p mod W + j"
proof -
  have eq: "p + j = (p mod W + j) + p div W * W"
    by simp
  have W: "W \<noteq> 0" using assms by auto
  have "(p mod W + j + p div W * W) div W = p div W + (p mod W + j) div W"
    using W by (rule div_mult_self1)
  then show "(p + j) div W = p div W"
    using assms by (simp only: eq div_less add_0_right)
  have "(p mod W + j + p div W * W) mod W = (p mod W + j) mod W"
    by (rule mod_mult_self1)
  then show "(p + j) mod W = p mod W + j"
    using assms by (simp only: eq mod_less)
qed

lemma row_next:
  fixes p :: nat
  assumes "p mod W + j = W" "0 < W"
  shows "(p + j) div W = p div W + 1" "(p + j) mod W = 0"
proof -
  have "p + j = p div W * W + (p mod W + j)"
    by simp
  then have eq: "p + j = 0 + (p div W + 1) * W"
    by (simp only: assms(1)) simp
  have "(0 + (p div W + 1) * W) div W = (p div W + 1) + 0 div W"
    using assms(2) by (intro div_mult_self1) simp
  then show "(p + j) div W = p div W + 1"
    by (simp only: eq) simp
  have "(0 + (p div W + 1) * W) mod W = 0 mod W"
    by (rule mod_mult_self1)
  then show "(p + j) mod W = 0"
    by (simp only: eq) simp
qed

lemma byte_moves_simps [simp]:
  "byte_moves [] = []" "byte_moves (e # es) = event_bytes e @ byte_moves es"
  "byte_moves (es @ fs) = byte_moves es @ byte_moves fs"
  by (simp_all add: byte_moves_def)

lemma strided_same:
  assumes "p mod unat w + j < unat w"
  shows "strided w g (p + j) = strided w g p + j"
  using row_same(1) [OF assms] by (simp add: strided_def)

lemma strided_next:
  assumes "p mod unat w + j = unat w" "w \<noteq> 0"
  shows "strided w g (p + j) = strided w g p + j + unat g"
proof -
  have "0 < unat w" using assms(2) by (simp add: unat_gt_0)
  from row_next(1) [OF assms(1) this] show ?thesis
    by (simp add: strided_def)
qed

lemma chunk_bytes:
  assumes "p mod unat iw + c \<le> unat iw" "p mod unat ow + c \<le> unat ow"
  shows "map (\<lambda>j. (dst0 + strided ow og p + j, src0 + strided iw ig p + j)) [0..<c]
       = map (\<lambda>k. (dst0 + strided ow og k, src0 + strided iw ig k)) [p..<p + c]"
proof -
  have "[p..<p + c] = map (\<lambda>j. j + p) [0..<c]"
    by (simp add: map_add_upt add.commute)
  moreover have "strided ow og (p + j) = strided ow og p + j"
    and "strided iw ig (p + j) = strided iw ig p + j" if "j < c" for j
    using that assms by (simp_all add: strided_same)
  ultimately show ?thesis
    by (simp add: add.commute add.assoc)
qed

lemma strided_mono: "k < k' \<Longrightarrow> strided w g k < strided w g k'"
proof -
  assume "k < k'"
  then have "k div unat w \<le> k' div unat w"
    by (intro div_le_mono) simp
  then have "k div unat w * unat g \<le> k' div unat w * unat g"
    by (rule mult_le_mono1)
  with \<open>k < k'\<close> show ?thesis
    unfolding strided_def by (rule add_less_le_mono)
qed

lemma unat_min: "unat (min a b) = min (unat a) (unat b)" for a b :: u32
  by (simp add: min_def word_le_nat_alt)

lemma copied_Cons_Memcpy: "copied (Memcpy d s n # es) = unat n + copied es"
  by (simp add: copied_def)

text \<open>The effect of one chunk on memory, in terms of payload offsets.\<close>

lemma chunk_memory:
  assumes "p mod unat ow + c \<le> unat ow" "p mod unat iw + c \<le> unat iw"
    and "dst = dst0 + strided ow og p" "src = src0 + strided iw ig p"
  shows "p \<le> k \<Longrightarrow> k < p + c \<Longrightarrow>
           memcpy m dst src c (dst0 + strided ow og k) = m (src0 + strided iw ig k)"
    and "(\<And>k. p \<le> k \<Longrightarrow> k < p + c \<Longrightarrow> a \<noteq> dst0 + strided ow og k) \<Longrightarrow> memcpy m dst src c a = m a"
proof -
  have so: "strided ow og (p + j) = strided ow og p + j" if "j < c" for j
    using that assms(1) by (intro strided_same) simp
  have si: "strided iw ig (p + j) = strided iw ig p + j" if "j < c" for j
    using that assms(2) by (intro strided_same) simp
  show "memcpy m dst src c (dst0 + strided ow og k) = m (src0 + strided iw ig k)"
    if "p \<le> k" "k < p + c"
  proof -
    define j where "j = k - p"
    have k: "k = p + j" and j: "j < c" using that by (simp_all add: j_def)
    show ?thesis
      using j by (simp add: k so si assms(3,4) memcpy_def add.assoc)
  qed
  show "memcpy m dst src c a = m a"
    if out: "\<And>k. p \<le> k \<Longrightarrow> k < p + c \<Longrightarrow> a \<noteq> dst0 + strided ow og k"
  proof (cases "dst \<le> a \<and> a < dst + c")
    case True
    define j where "j = a - dst"
    have j: "j < c" and a: "a = dst + j" using True by (auto simp add: j_def)
    have "a = dst0 + strided ow og (p + j)"
      using j by (simp add: a so assms(3))
    with out [of "p + j"] j show ?thesis by simp
  next
    case False
    then show ?thesis by (auto simp add: memcpy_def)
  qed
qed


text \<open>
  With positive row widths every round of the loop copies at least one byte, so the loop
  returns. The invariant: after \<open>p\<close> bytes the two pointers are at the strided offsets of
  \<open>p\<close> and the two row counters hold what is left of the current rows. Every chunk is the
  one the specification names, and when no destination byte is a source byte the memory
  afterwards holds the payload at the strided destination offsets and is unchanged
  elsewhere.
\<close>

lemma texture_copy_loop_total:
  assumes "iw \<noteq> 0" "ow \<noteq> 0"
  shows "unat ri = unat iw - p mod unat iw \<Longrightarrow> unat ro = unat ow - p mod unat ow \<Longrightarrow>
     src = src0 + strided iw ig p \<Longrightarrow> dst = dst0 + strided ow og p \<Longrightarrow>
     \<exists>s' es. texture_copy_loop iw ig ow og src dst ri ro rs s = Some s'
        \<and> events s' = events s @ es \<and> g_regs s' = g_regs s
        \<and> copied es = unat rs \<and> list_all (chunk_within iw ow) es
        \<and> byte_moves es = map (\<lambda>k. (dst0 + strided ow og k, src0 + strided iw ig k)) [p..<p + unat rs]
        \<and> (\<forall>i<length es. es ! i = spec_chunk iw ig ow og src0 dst0 (p + unat rs) (p + copied (take i es)))
        \<and> ((\<forall>k j. p \<le> k \<and> k < p + unat rs \<and> p \<le> j \<and> j < p + unat rs
                \<longrightarrow> dst0 + strided ow og k \<noteq> src0 + strided iw ig j) \<longrightarrow>
           (\<forall>k. p \<le> k \<and> k < p + unat rs \<longrightarrow>
                memory s' (dst0 + strided ow og k) = memory s (src0 + strided iw ig k)) \<and>
           (\<forall>a. (\<forall>k. p \<le> k \<and> k < p + unat rs \<longrightarrow> a \<noteq> dst0 + strided ow og k) \<longrightarrow>
                memory s' a = memory s a))"
proof (induction "unat rs" arbitrary: rs ri ro src dst p s rule: less_induct)
  case less
  have Wi: "0 < unat iw" and Wo: "0 < unat ow"
    using assms by (simp_all add: unat_gt_0)
  have mi: "p mod unat iw < unat iw" and mo: "p mod unat ow < unat ow"
    using Wi Wo by simp_all
  have ri0: "ri \<noteq> 0" and ro0: "ro \<noteq> 0"
    using less.prems(1,2) mi mo by (auto simp add: unat_eq_zero [symmetric] simp del: unat_eq_zero)
  have rile: "ri \<le> iw" and role: "ro \<le> ow"
    using less.prems(1,2) by (simp_all add: word_le_nat_alt)
  show ?case
  proof (cases "rs = 0")
    case True
    then show ?thesis
      by (subst texture_copy_loop.simps) (auto simp add: copied_def)
  next
    case False
    define c where "c = min ri (min ro rs)"
    have c0: "c \<noteq> 0" and cri: "c \<le> ri" and cro: "c \<le> ro" and crs: "c \<le> rs"
      using ri0 ro0 False by (auto simp add: c_def min_def)
    have cpos: "0 < unat c"
      using c0 by (simp add: unat_gt_0)
    have dec: "unat (rs - c) < unat rs"
      using cpos crs by (simp add: unat_sub word_le_nat_alt)
    have ci: "p mod unat iw + unat c \<le> unat iw" and co: "p mod unat ow + unat c \<le> unat ow"
      using cri cro less.prems(1,2) mi mo by (simp_all add: word_le_nat_alt)
    define ri' where "ri' = (if ri - c = 0 then iw else ri - c)"
    define ro' where "ro' = (if ro - c = 0 then ow else ro - c)"
    define src' where "src' = (if ri - c = 0 then src + unat c + unat ig else src + unat c)"
    define dst' where "dst' = (if ro - c = 0 then dst + unat c + unat og else dst + unat c)"
    define s1 where "s1 = emit [Memcpy dst src c] (s\<lparr>memory := memcpy (memory s) dst src (unat c)\<rparr>)"
    have subi: "unat (ri - c) = unat ri - unat c" and subo: "unat (ro - c) = unat ro - unat c"
      using cri cro by (simp_all add: unat_sub)
    have zi: "ri - c = 0 \<longleftrightarrow> p mod unat iw + unat c = unat iw"
      using subi less.prems(1) ci mi by (auto simp add: unat_eq_zero [symmetric] simp del: unat_eq_zero)
    have zo: "ro - c = 0 \<longleftrightarrow> p mod unat ow + unat c = unat ow"
      using subo less.prems(2) co mo by (auto simp add: unat_eq_zero [symmetric] simp del: unat_eq_zero)
    have ri': "unat ri' = unat iw - (p + unat c) mod unat iw"
    proof (cases "ri - c = 0")
      case True
      with zi row_next(2) [of p "unat iw" "unat c"] Wi show ?thesis by (simp add: ri'_def)
    next
      case False
      with zi ci have "p mod unat iw + unat c < unat iw" by simp
      from row_same(2) [OF this] False subi less.prems(1) show ?thesis by (simp add: ri'_def)
    qed
    have ro': "unat ro' = unat ow - (p + unat c) mod unat ow"
    proof (cases "ro - c = 0")
      case True
      with zo row_next(2) [of p "unat ow" "unat c"] Wo show ?thesis by (simp add: ro'_def)
    next
      case False
      with zo co have "p mod unat ow + unat c < unat ow" by simp
      from row_same(2) [OF this] False subo less.prems(2) show ?thesis by (simp add: ro'_def)
    qed
    have src': "src' = src0 + strided iw ig (p + unat c)"
    proof (cases "ri - c = 0")
      case True
      with zi strided_next [of p iw "unat c" ig] assms(1) less.prems(3) show ?thesis
        by (simp add: src'_def)
    next
      case False
      with zi ci have "p mod unat iw + unat c < unat iw" by simp
      from strided_same [OF this] False less.prems(3) show ?thesis by (simp add: src'_def)
    qed
    have dst': "dst' = dst0 + strided ow og (p + unat c)"
    proof (cases "ro - c = 0")
      case True
      with zo strided_next [of p ow "unat c" og] assms(2) less.prems(4) show ?thesis
        by (simp add: dst'_def)
    next
      case False
      with zo co have "p mod unat ow + unat c < unat ow" by simp
      from strided_same [OF this] False less.prems(4) show ?thesis by (simp add: dst'_def)
    qed
    have sum: "unat c + unat (rs - c) = unat rs"
      using crs by (simp add: unat_sub word_le_nat_alt)
    have total: "p + unat c + unat (rs - c) = p + unat rs"
      using sum by simp
    obtain s' es where IH: "texture_copy_loop iw ig ow og src' dst' ri' ro' (rs - c) s1 = Some s'"
      "events s' = events s1 @ es" "g_regs s' = g_regs s1" "copied es = unat (rs - c)"
      "list_all (chunk_within iw ow) es"
      "byte_moves es = map (\<lambda>k. (dst0 + strided ow og k, src0 + strided iw ig k))
                         [p + unat c..<p + unat c + unat (rs - c)]"
      and IHc: "\<forall>i<length es. es ! i =
         spec_chunk iw ig ow og src0 dst0 (p + unat rs) (p + unat c + copied (take i es))"
      and IHm: "(\<forall>k j. p + unat c \<le> k \<and> k < p + unat rs \<and> p + unat c \<le> j \<and> j < p + unat rs
                \<longrightarrow> dst0 + strided ow og k \<noteq> src0 + strided iw ig j) \<longrightarrow>
           (\<forall>k. p + unat c \<le> k \<and> k < p + unat rs \<longrightarrow>
                memory s' (dst0 + strided ow og k) = memory s1 (src0 + strided iw ig k)) \<and>
           (\<forall>a. (\<forall>k. p + unat c \<le> k \<and> k < p + unat rs \<longrightarrow> a \<noteq> dst0 + strided ow og k) \<longrightarrow>
                memory s' a = memory s1 a)"
      using less.hyps [OF dec ri' ro' src' dst', of s1] unfolding total by blast
    have unf: "texture_copy_loop iw ig ow og src dst ri ro rs s =
        texture_copy_loop iw ig ow og src' dst' ri' ro' (rs - c) s1"
      using False
      by (subst texture_copy_loop.simps)
         (simp add: Let_def c_def [symmetric] ri'_def src'_def dst'_def ro'_def s1_def word_neq_0_conv)
    have chunk: "chunk_within iw ow (Memcpy dst src c)"
      using c0 order_trans [OF cri rile] order_trans [OF cro role]
      by (simp add: word_neq_0_conv)
    have first: "event_bytes (Memcpy dst src c)
        = map (\<lambda>k. (dst0 + strided ow og k, src0 + strided iw ig k)) [p..<p + unat c]"
      using chunk_bytes [OF ci co, of dst0 og src0 ig] less.prems(3,4) by simp
    have split: "[p..<p + unat rs] = [p..<p + unat c] @ [p + unat c..<p + unat c + unat (rs - c)]"
      using upt_add_eq_append [of p "p + unat c" "unat (rs - c)"] sum by (simp add: add.assoc)
    have size_c: "unat c = min (unat iw - p mod unat iw) (min (unat ow - p mod unat ow) (p + unat rs - p))"
      using less.prems(1,2) by (simp add: c_def unat_min)
    have head: "Memcpy dst src c = spec_chunk iw ig ow og src0 dst0 (p + unat rs) p"
      unfolding spec_chunk_def size_c [symmetric] using less.prems(3,4) by simp
    let ?es = "Memcpy dst src c # es"
    have e1: "texture_copy_loop iw ig ow og src dst ri ro rs s = Some s'"
      using IH(1) by (simp add: unf)
    have e2: "events s' = events s @ ?es"
      using IH(2) by (simp add: s1_def)
    have e3: "g_regs s' = g_regs s"
      using IH(3) by (simp add: s1_def)
    have e4: "copied ?es = unat rs"
      using IH(4) sum by (simp add: copied_Cons_Memcpy)
    have e5: "list_all (chunk_within iw ow) ?es"
      using IH(5) chunk by simp
    have e6: "byte_moves ?es = map (\<lambda>k. (dst0 + strided ow og k, src0 + strided iw ig k)) [p..<p + unat rs]"
      by (simp add: first split IH(6) del: event_bytes.simps)
    have e7: "\<forall>i<length ?es. ?es ! i =
        spec_chunk iw ig ow og src0 dst0 (p + unat rs) (p + copied (take i ?es))"
    proof (intro allI impI)
      fix i assume i: "i < length ?es"
      show "?es ! i = spec_chunk iw ig ow og src0 dst0 (p + unat rs) (p + copied (take i ?es))"
      proof (cases i)
        case 0
        then show ?thesis by (simp add: head copied_def)
      next
        case (Suc i')
        with i IHc show ?thesis
          by (simp add: copied_Cons_Memcpy add.assoc)
      qed
    qed
    have e8: "(\<forall>k. p \<le> k \<and> k < p + unat rs \<longrightarrow>
                memory s' (dst0 + strided ow og k) = memory s (src0 + strided iw ig k)) \<and>
           (\<forall>a. (\<forall>k. p \<le> k \<and> k < p + unat rs \<longrightarrow> a \<noteq> dst0 + strided ow og k) \<longrightarrow>
                memory s' a = memory s a)"
      if apart: "\<forall>k j. p \<le> k \<and> k < p + unat rs \<and> p \<le> j \<and> j < p + unat rs
                \<longrightarrow> dst0 + strided ow og k \<noteq> src0 + strided iw ig j"
    proof -
      have m1: "memory s1 = memcpy (memory s) dst src (unat c)"
        by (simp add: s1_def)
      have later: "\<forall>k. p + unat c \<le> k \<and> k < p + unat rs \<longrightarrow>
                memory s' (dst0 + strided ow og k) = memory s1 (src0 + strided iw ig k)"
        and rest: "\<forall>a. (\<forall>k. p + unat c \<le> k \<and> k < p + unat rs \<longrightarrow> a \<noteq> dst0 + strided ow og k) \<longrightarrow>
                memory s' a = memory s1 a"
        using IHm apart by auto
      have cle: "p + unat c \<le> p + unat rs"
        using sum by simp
      have A: "memory s' (dst0 + strided ow og k) = memory s (src0 + strided iw ig k)"
        if k: "p \<le> k" "k < p + unat rs" for k
      proof (cases "k < p + unat c")
        case True
        have "dst0 + strided ow og k \<noteq> dst0 + strided ow og k'" if "p + unat c \<le> k'" for k'
          using strided_mono [of k k' ow og] True that by simp
        then have "memory s' (dst0 + strided ow og k) = memory s1 (dst0 + strided ow og k)"
          using rest by blast
        also have "\<dots> = memory s (src0 + strided iw ig k)"
          unfolding m1 using chunk_memory(1) [OF co ci less.prems(4,3) k(1) True] .
        finally show ?thesis .
      next
        case False
        then have "memory s' (dst0 + strided ow og k) = memory s1 (src0 + strided iw ig k)"
          using later k by simp
        also have "\<dots> = memory s (src0 + strided iw ig k)"
          unfolding m1
        proof (rule chunk_memory(2) [OF co ci less.prems(4,3)])
          fix k' assume "p \<le> k'" "k' < p + unat c"
          with apart k cle show "src0 + strided iw ig k \<noteq> dst0 + strided ow og k'"
            by (metis less_le_trans)
        qed
        finally show ?thesis .
      qed
      have B: "memory s' a = memory s a"
        if out: "\<forall>k. p \<le> k \<and> k < p + unat rs \<longrightarrow> a \<noteq> dst0 + strided ow og k" for a
      proof -
        have "memory s' a = memory s1 a"
          using rest out by simp
        also have "\<dots> = memory s a"
          unfolding m1
        proof (rule chunk_memory(2) [OF co ci less.prems(4,3)])
          fix k' assume "p \<le> k'" "k' < p + unat c"
          with out cle show "a \<noteq> dst0 + strided ow og k'"
            by simp
        qed
        finally show ?thesis .
      qed
      show ?thesis
        using A B by blast
    qed
    show ?thesis
      using e1 e2 e3 e4 e5 e6 e7 e8 by (intro exI [of _ s'] exI [of _ ?es]) blast
  qed
qed

lemma strided_0 [simp]: "strided w g 0 = 0"
  by (simp add: strided_def)

lemma texture_copy_from_start:
  assumes "iw \<noteq> 0" "ow \<noteq> 0"
  shows "\<exists>s' es. texture_copy_loop iw ig ow og src dst iw ow rs s = Some s'
        \<and> events s' = events s @ es \<and> g_regs s' = g_regs s
        \<and> copied es = unat rs \<and> list_all (chunk_within iw ow) es
        \<and> byte_moves es = map (\<lambda>k. (dst + strided ow og k, src + strided iw ig k)) [0..<unat rs]
        \<and> (\<forall>i<length es. es ! i = spec_chunk iw ig ow og src dst (unat rs) (copied (take i es)))
        \<and> ((\<forall>k j. k < unat rs \<and> j < unat rs
                \<longrightarrow> dst + strided ow og k \<noteq> src + strided iw ig j) \<longrightarrow>
           (\<forall>k. k < unat rs \<longrightarrow>
                memory s' (dst + strided ow og k) = memory s (src + strided iw ig k)) \<and>
           (\<forall>a. (\<forall>k. k < unat rs \<longrightarrow> a \<noteq> dst + strided ow og k) \<longrightarrow>
                memory s' a = memory s a))"
  using texture_copy_loop_total [OF assms, of iw 0 ow src src ig dst dst og rs s] by simp

lemma chunks_filter: "list_all (chunk_within iw ow) es \<Longrightarrow> filter is_Memcpy es = es"
  by (induction es) (auto elim: chunk_within.elims)

lemma chunks_are_memcpy:
  "list_all (chunk_within iw ow) es \<Longrightarrow> e \<in> set es \<Longrightarrow> \<exists>dst src n. e = Memcpy dst src n"
  by (induction es) (auto elim: chunk_within.elims)

lemma chunks_no_interrupt:
  "list_all (chunk_within iw ow) es \<Longrightarrow> count_list es (SignalInterrupt i) = 0"
  using chunks_are_memcpy [of iw ow es "SignalInterrupt i"] by (auto simp add: count_list_0_iff)

lemma copied_append [simp]: "copied (es @ fs) = copied es + copied fs"
  by (simp add: copied_def)

lemma copied_simps [simp]:
  "copied [] = 0" "copied (Memcpy dst src n # es) = unat n + copied es"
  "copied (RasterizerFlushRegion a l # es) = copied es"
  "copied (RasterizerFlushAndInvalidateRegion a l # es) = copied es"
  "copied (LOG_TRACE # es) = copied es" "copied (SignalInterrupt i # es) = copied es"
  "copied (OnEvent_IncomingDisplayTransfer # es) = copied es"
  "copied (RegisterWritten a v # es) = copied es"
  by (simp_all add: copied_def)

text \<open>
  A trigger write that starts a texture copy on the software path: the write returns, the
  register file is as the store left it, and the events are the two cache operations, the
  chunks, and the trace and interrupt that precede the \<^verbatim>\<open>break\<close>.
\<close>

lemma Write_texture_copy:
  assumes "reg_index D addr0 = dt_trigger (display_transfer_config D)"
    and "dt_trigger (display_transfer_config D) < NumIds D"
    and "dt_trigger (display_transfer_config D) \<noteq> memory_fill_trigger_index 0"
    and "dt_trigger (display_transfer_config D) \<noteq> memory_fill_trigger_index 1"
    and "ucast data AND (1::u32) \<noteq> 0"
    and "\<not> AccelerateDisplayTransfer E"
    and "Value (dt_is_texture_copy (display_transfer_config D))
           (transfer_flags D (stored D addr0 data s)) \<noteq> 0"
    and "texture_input_width D (stored D addr0 data s) \<noteq> 0"
    and "texture_output_width D (stored D addr0 data s) \<noteq> 0"
  shows "\<exists>s' a1 l1 a2 l2 es. Write D E U32 addr0 data s = Some s'
     \<and> g_regs s' = g_regs (stored D addr0 data s)
     \<and> events s' = events s @ debug_event E
          @ [RasterizerFlushRegion a1 l1, RasterizerFlushAndInvalidateRegion a2 l2] @ es
          @ [LOG_TRACE, SignalInterrupt PPF] @ traced D E addr0 data
     \<and> copied es = unat (texture_size D (stored D addr0 data s))
     \<and> list_all (chunk_within (texture_input_width D (stored D addr0 data s))
                   (texture_output_width D (stored D addr0 data s))) es
     \<and> byte_moves es =
          map (\<lambda>k. (transfer_dst_pointer D E (stored D addr0 data s)
                       + strided (texture_output_width D (stored D addr0 data s))
                           (texture_output_gap D (stored D addr0 data s)) k,
                     transfer_src_pointer D E (stored D addr0 data s)
                       + strided (texture_input_width D (stored D addr0 data s))
                           (texture_input_gap D (stored D addr0 data s)) k))
            [0..<unat (texture_size D (stored D addr0 data s))]
     \<and> (\<forall>i<length es. es ! i =
          spec_chunk (texture_input_width D (stored D addr0 data s))
            (texture_input_gap D (stored D addr0 data s))
            (texture_output_width D (stored D addr0 data s))
            (texture_output_gap D (stored D addr0 data s))
            (transfer_src_pointer D E (stored D addr0 data s))
            (transfer_dst_pointer D E (stored D addr0 data s))
            (unat (texture_size D (stored D addr0 data s))) (copied (take i es)))
     \<and> ((\<forall>k j. k < unat (texture_size D (stored D addr0 data s))
                \<and> j < unat (texture_size D (stored D addr0 data s)) \<longrightarrow>
              transfer_dst_pointer D E (stored D addr0 data s)
                + strided (texture_output_width D (stored D addr0 data s))
                    (texture_output_gap D (stored D addr0 data s)) k
              \<noteq> transfer_src_pointer D E (stored D addr0 data s)
                + strided (texture_input_width D (stored D addr0 data s))
                    (texture_input_gap D (stored D addr0 data s)) j) \<longrightarrow>
          (\<forall>k. k < unat (texture_size D (stored D addr0 data s)) \<longrightarrow>
              memory s' (transfer_dst_pointer D E (stored D addr0 data s)
                           + strided (texture_output_width D (stored D addr0 data s))
                               (texture_output_gap D (stored D addr0 data s)) k)
              = memory s (transfer_src_pointer D E (stored D addr0 data s)
                            + strided (texture_input_width D (stored D addr0 data s))
                                (texture_input_gap D (stored D addr0 data s)) k)) \<and>
          (\<forall>a. (\<forall>k. k < unat (texture_size D (stored D addr0 data s)) \<longrightarrow>
                   a \<noteq> transfer_dst_pointer D E (stored D addr0 data s)
                         + strided (texture_output_width D (stored D addr0 data s))
                             (texture_output_gap D (stored D addr0 data s)) k) \<longrightarrow>
              memory s' a = memory s a))"
proof -
  let ?s1 = "stored D addr0 data s"
  let ?s2 = "emit (debug_event E) ?s1"
  let ?C = "display_transfer_config D"
  let ?T = "dt_texture_copy ?C"
  let ?iw = "texture_input_width D ?s1" and ?ow = "texture_output_width D ?s1"
  let ?ig = "texture_input_gap D ?s1" and ?og = "texture_output_gap D ?s1"
  let ?pin = "DecodeAddressRegister D (g_regs ?s1 (dt_input_address ?C))"
  let ?pout = "DecodeAddressRegister D (g_regs ?s1 (dt_output_address ?C))"
  let ?a = "[RasterizerFlushRegion ?pin (texture_size D ?s1 div ?iw * (?iw + ?ig)),
             RasterizerFlushAndInvalidateRegion ?pout (texture_size D ?s1 div ?ow * (?ow + ?og))]"
  have trig: "g_regs ?s1 (dt_trigger ?C) AND 1 \<noteq> 0"
    using assms(1,5) stored_fields(3) [of D addr0 data s] by simp
  obtain s3 es where loop: "texture_copy_loop ?iw ?ig ?ow ?og (GetPhysicalPointer E ?pin)
        (GetPhysicalPointer E ?pout) ?iw ?ow (texture_size D ?s1) (emit ?a ?s2) = Some s3"
    and ev: "events s3 = events (emit ?a ?s2) @ es" and regs: "g_regs s3 = g_regs (emit ?a ?s2)"
    and sum: "copied es = unat (texture_size D ?s1)"
    and chunks: "list_all (chunk_within ?iw ?ow) es"
    and moves: "byte_moves es =
        map (\<lambda>k. (GetPhysicalPointer E ?pout + strided ?ow ?og k,
                   GetPhysicalPointer E ?pin + strided ?iw ?ig k)) [0..<unat (texture_size D ?s1)]"
    and exact: "\<forall>i<length es. es ! i = spec_chunk ?iw ?ig ?ow ?og (GetPhysicalPointer E ?pin)
        (GetPhysicalPointer E ?pout) (unat (texture_size D ?s1)) (copied (take i es))"
    and mem: "(\<forall>k j. k < unat (texture_size D ?s1) \<and> j < unat (texture_size D ?s1) \<longrightarrow>
                GetPhysicalPointer E ?pout + strided ?ow ?og k
                \<noteq> GetPhysicalPointer E ?pin + strided ?iw ?ig j) \<longrightarrow>
           (\<forall>k. k < unat (texture_size D ?s1) \<longrightarrow>
                memory s3 (GetPhysicalPointer E ?pout + strided ?ow ?og k)
                = memory (emit ?a ?s2) (GetPhysicalPointer E ?pin + strided ?iw ?ig k)) \<and>
           (\<forall>a. (\<forall>k. k < unat (texture_size D ?s1) \<longrightarrow>
                   a \<noteq> GetPhysicalPointer E ?pout + strided ?ow ?og k) \<longrightarrow>
                memory s3 a = memory (emit ?a ?s2) a)"
    using texture_copy_from_start [OF assms(8,9), of ?ig ?og "GetPhysicalPointer E ?pin"
        "GetPhysicalPointer E ?pout" "texture_size D ?s1" "emit ?a ?s2"]
    by blast
  have "display_transfer_software D E ?s2 = Some (Break (emit [LOG_TRACE, SignalInterrupt PPF] s3))"
    using assms(7,8,9) loop
    by (simp add: display_transfer_software_def texture_copy_case_def Let_def transfer_flags_def
        texture_input_width_def texture_output_width_def texture_size_def emit_def
        texture_input_gap_def texture_output_gap_def)
  then have "display_transfer_case D E ?s1 = Some (emit [LOG_TRACE, SignalInterrupt PPF] s3)"
    using trig assms(6) by (simp add: display_case_software)
  then have "Write D E U32 addr0 data s =
      Some (emit (traced D E addr0 data) (emit [LOG_TRACE, SignalInterrupt PPF] s3))"
    using assms(1-4) by (simp add: Write_display)
  then show ?thesis
    using ev regs sum chunks moves exact mem
    by (intro exI [of _ "emit (traced D E addr0 data) (emit [LOG_TRACE, SignalInterrupt PPF] s3)"]
          exI [of _ es])
       (simp add: transfer_dst_pointer_def transfer_src_pointer_def)
qed


text \<open>
  Claim C3: for every texture-copy transfer (software path) whose input and output row
  widths are positive, the copy loop terminates, so the write returns; the chunks copied
  add up to exactly the configured size; the copy proceeds in chunks of the minimum of the
  bytes remaining in the input row, in the output row and in total (the \<open>i\<close>-th
  \<^verbatim>\<open>memcpy\<close> is the chunk that the specification names for the offset reached by the
  chunks before it), each non-empty and no longer than a row of either side; the gaps are
  skipped at the row boundaries, that is, payload byte \<open>k\<close> is moved from
  \<open>src_pointer + k + (k div input_width) * input_gap\<close> to
  \<open>dst_pointer + k + (k div output_width) * output_gap\<close>, for \<open>k\<close> from 0 up to the size;
  when no destination byte is a source byte, memory afterwards holds payload byte \<open>k\<close> of the
  source at its destination and is unchanged everywhere else; and \<^verbatim>\<open>PPF\<close> is signalled
  exactly once.
\<close>

theorem C3_texture_copy_exact:
  assumes "reg_index D addr0 = dt_trigger (display_transfer_config D)"
    and "dt_trigger (display_transfer_config D) < NumIds D"
    and "dt_trigger (display_transfer_config D) \<noteq> memory_fill_trigger_index 0"
    and "dt_trigger (display_transfer_config D) \<noteq> memory_fill_trigger_index 1"
    and "ucast data AND (1::u32) \<noteq> 0"
    and "\<not> AccelerateDisplayTransfer E"
    and "Value (dt_is_texture_copy (display_transfer_config D))
           (transfer_flags D (stored D addr0 data s)) \<noteq> 0"
    and "texture_input_width D (stored D addr0 data s) \<noteq> 0"
    and "texture_output_width D (stored D addr0 data s) \<noteq> 0"
  shows "\<exists>s' es. Write D E U32 addr0 data s = Some s' \<and> events s' = events s @ es
     \<and> copied es = unat (texture_size D (stored D addr0 data s))
     \<and> count_list es (SignalInterrupt PPF) = 1
     \<and> (\<forall>dst src n. Memcpy dst src n \<in> set es \<longrightarrow>
           0 < n \<and> n \<le> texture_input_width D (stored D addr0 data s)
                 \<and> n \<le> texture_output_width D (stored D addr0 data s))
     \<and> byte_moves es =
          map (\<lambda>k. (transfer_dst_pointer D E (stored D addr0 data s)
                       + strided (texture_output_width D (stored D addr0 data s))
                           (texture_output_gap D (stored D addr0 data s)) k,
                     transfer_src_pointer D E (stored D addr0 data s)
                       + strided (texture_input_width D (stored D addr0 data s))
                           (texture_input_gap D (stored D addr0 data s)) k))
            [0..<unat (texture_size D (stored D addr0 data s))]
     \<and> (\<forall>i<length (filter is_Memcpy es). filter is_Memcpy es ! i =
          spec_chunk (texture_input_width D (stored D addr0 data s))
            (texture_input_gap D (stored D addr0 data s))
            (texture_output_width D (stored D addr0 data s))
            (texture_output_gap D (stored D addr0 data s))
            (transfer_src_pointer D E (stored D addr0 data s))
            (transfer_dst_pointer D E (stored D addr0 data s))
            (unat (texture_size D (stored D addr0 data s)))
            (copied (take i (filter is_Memcpy es))))
     \<and> ((\<forall>k j. k < unat (texture_size D (stored D addr0 data s))
                \<and> j < unat (texture_size D (stored D addr0 data s)) \<longrightarrow>
              transfer_dst_pointer D E (stored D addr0 data s)
                + strided (texture_output_width D (stored D addr0 data s))
                    (texture_output_gap D (stored D addr0 data s)) k
              \<noteq> transfer_src_pointer D E (stored D addr0 data s)
                + strided (texture_input_width D (stored D addr0 data s))
                    (texture_input_gap D (stored D addr0 data s)) j) \<longrightarrow>
          (\<forall>k. k < unat (texture_size D (stored D addr0 data s)) \<longrightarrow>
              memory s' (transfer_dst_pointer D E (stored D addr0 data s)
                           + strided (texture_output_width D (stored D addr0 data s))
                               (texture_output_gap D (stored D addr0 data s)) k)
              = memory s (transfer_src_pointer D E (stored D addr0 data s)
                            + strided (texture_input_width D (stored D addr0 data s))
                                (texture_input_gap D (stored D addr0 data s)) k)) \<and>
          (\<forall>a. (\<forall>k. k < unat (texture_size D (stored D addr0 data s)) \<longrightarrow>
                   a \<noteq> transfer_dst_pointer D E (stored D addr0 data s)
                         + strided (texture_output_width D (stored D addr0 data s))
                             (texture_output_gap D (stored D addr0 data s)) k) \<longrightarrow>
              memory s' a = memory s a))"
proof -
  let ?s1 = "stored D addr0 data s"
  let ?iw = "texture_input_width D ?s1" and ?ow = "texture_output_width D ?s1"
  let ?ig = "texture_input_gap D ?s1" and ?og = "texture_output_gap D ?s1"
  let ?src = "transfer_src_pointer D E ?s1" and ?dst = "transfer_dst_pointer D E ?s1"
  let ?n = "unat (texture_size D ?s1)"
  obtain s' a1 l1 a2 l2 es where w: "Write D E U32 addr0 data s = Some s'"
    and ev: "events s' = events s @ debug_event E
          @ [RasterizerFlushRegion a1 l1, RasterizerFlushAndInvalidateRegion a2 l2] @ es
          @ [LOG_TRACE, SignalInterrupt PPF] @ traced D E addr0 data"
    and sum: "copied es = ?n"
    and chunks: "list_all (chunk_within ?iw ?ow) es"
    and moves: "byte_moves es =
          map (\<lambda>k. (?dst + strided ?ow ?og k, ?src + strided ?iw ?ig k)) [0..<?n]"
    and exact: "\<forall>i<length es. es ! i =
          spec_chunk ?iw ?ig ?ow ?og ?src ?dst ?n (copied (take i es))"
    and mem: "(\<forall>k j. k < ?n \<and> j < ?n \<longrightarrow>
              ?dst + strided ?ow ?og k \<noteq> ?src + strided ?iw ?ig j) \<longrightarrow>
          (\<forall>k. k < ?n \<longrightarrow>
              memory s' (?dst + strided ?ow ?og k) = memory s (?src + strided ?iw ?ig k)) \<and>
          (\<forall>a. (\<forall>k. k < ?n \<longrightarrow> a \<noteq> ?dst + strided ?ow ?og k) \<longrightarrow> memory s' a = memory s a)"
    using Write_texture_copy [OF assms] by blast
  let ?es = "debug_event E @ [RasterizerFlushRegion a1 l1, RasterizerFlushAndInvalidateRegion a2 l2]
               @ es @ [LOG_TRACE, SignalInterrupt PPF] @ traced D E addr0 data"
  have total: "copied ?es = ?n"
    using sum by (simp add: debug_event_def traced_def)
  have once: "count_list ?es (SignalInterrupt PPF) = 1"
    using chunks_no_interrupt [OF chunks, of PPF] by (simp add: debug_event_def traced_def)
  have within: "0 < n \<and> n \<le> ?iw \<and> n \<le> ?ow" if "Memcpy dst src n \<in> set ?es" for dst src n
  proof -
    from that have "Memcpy dst src n \<in> set es"
      by (auto simp add: debug_event_def traced_def split: if_splits)
    with chunks have "chunk_within ?iw ?ow (Memcpy dst src n)"
      unfolding list_all_iff by blast
    then show ?thesis by simp
  qed
  have all_moves: "byte_moves ?es = byte_moves es"
    by (simp add: debug_event_def traced_def)
  have only: "filter is_Memcpy ?es = es"
    using chunks_filter [OF chunks] by (simp add: debug_event_def traced_def)
  have moves': "byte_moves ?es =
          map (\<lambda>k. (?dst + strided ?ow ?og k, ?src + strided ?iw ?ig k)) [0..<?n]"
    using moves by (simp only: all_moves)
  have exact': "\<forall>i<length (filter is_Memcpy ?es). filter is_Memcpy ?es ! i =
          spec_chunk ?iw ?ig ?ow ?og ?src ?dst ?n (copied (take i (filter is_Memcpy ?es)))"
    using exact by (simp only: only)
  show ?thesis
    using w ev total once within moves' exact' mem
    by (intro exI [of _ s'] exI [of _ ?es]) blast
qed

theorem C3_texture_copy_exact_witness:
  "map_option events (Write ex_regs ex_hooks U32 0x1EF00C18 1
     (with_regs [(0x300, 0x20), (0x301, 0x40), (0x304, 8), (0x308, 64), (0x309, 2), (0x30A, 1)]
        (zeroed\<lparr>memory := (\<lambda>a. 0)(0x100 := 0xAA, 0x11F := 0xBB, 0x13F := 0xCC)\<rparr>)))
   = Some [RasterizerFlushRegion 0x100 64, RasterizerFlushAndInvalidateRegion 0x200 64,
           Memcpy 0x200 0x100 16, Memcpy 0x210 0x110 16, Memcpy 0x220 0x120 16, Memcpy 0x230 0x130 16,
           LOG_TRACE, SignalInterrupt PPF]
   \<and> bytes_after (Write ex_regs ex_hooks U32 0x1EF00C18 1
     (with_regs [(0x300, 0x20), (0x301, 0x40), (0x304, 8), (0x308, 64), (0x309, 2), (0x30A, 1)]
        (zeroed\<lparr>memory := (\<lambda>a. 0)(0x100 := 0xAA, 0x11F := 0xBB, 0x13F := 0xCC)\<rparr>))) 0x200 2
   = [0xAA, 0]
   \<and> bytes_after (Write ex_regs ex_hooks U32 0x1EF00C18 1
     (with_regs [(0x300, 0x20), (0x301, 0x40), (0x304, 8), (0x308, 64), (0x309, 2), (0x30A, 1)]
        (zeroed\<lparr>memory := (\<lambda>a. 0)(0x100 := 0xAA, 0x11F := 0xBB, 0x13F := 0xCC)\<rparr>))) 0x21F 2
   = [0xBB, 0]
   \<and> bytes_after (Write ex_regs ex_hooks U32 0x1EF00C18 1
     (with_regs [(0x300, 0x20), (0x301, 0x40), (0x304, 8), (0x308, 64), (0x309, 2), (0x30A, 1)]
        (zeroed\<lparr>memory := (\<lambda>a. 0)(0x100 := 0xAA, 0x11F := 0xBB, 0x13F := 0xCC)\<rparr>))) 0x23F 2
   = [0xCC, 0]"
  using C3_texture_copy_exact [of ex_regs "0x1EF00C18" 1 ex_hooks
     "with_regs [(0x300, 0x20), (0x301, 0x40), (0x304, 8), (0x308, 64), (0x309, 2), (0x30A, 1)]
        (zeroed\<lparr>memory := (\<lambda>a. 0)(0x100 := 0xAA, 0x11F := 0xBB, 0x13F := 0xCC)\<rparr>)"]
  by (simp add: Write_def display_transfer_case_def display_transfer_software_def texture_copy_case_def
      texture_copy_loop.simps Let_def memory_fill_trigger_index_def ex_regs_def ex_hooks_def
      ex_transfer_def ex_texture_copy_def ex_command_def zeroed_def eval_bits emit_def
      bytes_after_def upt_rec memcpy_def)

text \<open>
  Claim C4: after every register write that starts an engine operation and runs it to
  completion, the trigger bit is cleared and reads back as 0. The fill, the display
  transfer and the command dispatch end in the statement that clears the trigger; the
  texture copy of the software path signals \<^verbatim>\<open>PPF\<close> and leaves by \<^verbatim>\<open>break\<close>, which skips
  \<^verbatim>\<open>g_regs.display_transfer_config.trigger = 0\<close>. So every texture copy of the software
  path with positive row widths runs to completion and leaves the trigger cell as written,
  with bit 0 set; a read of the cell returns it. The example is a copy of 64 bytes.
\<close>

theorem C4_texture_copy_keeps_trigger:
  assumes "reg_index D addr0 = dt_trigger (display_transfer_config D)"
    and "dt_trigger (display_transfer_config D) < NumIds D"
    and "dt_trigger (display_transfer_config D) \<noteq> memory_fill_trigger_index 0"
    and "dt_trigger (display_transfer_config D) \<noteq> memory_fill_trigger_index 1"
    and "ucast data AND (1::u32) \<noteq> 0"
    and "\<not> AccelerateDisplayTransfer E"
    and "Value (dt_is_texture_copy (display_transfer_config D))
           (transfer_flags D (stored D addr0 data s)) \<noteq> 0"
    and "texture_input_width D (stored D addr0 data s) \<noteq> 0"
    and "texture_output_width D (stored D addr0 data s) \<noteq> 0"
  shows "\<exists>s'. Write D E U32 addr0 data s = Some s'
     \<and> SignalInterrupt PPF \<in> set (events s')
     \<and> g_regs s' (dt_trigger (display_transfer_config D)) = ucast data
     \<and> g_regs s' (dt_trigger (display_transfer_config D)) AND 1 \<noteq> 0
     \<and> fst (Read D U32 var addr0 s') = ucast (g_regs s' (dt_trigger (display_transfer_config D)))"
proof -
  obtain s' a1 l1 a2 l2 es where w: "Write D E U32 addr0 data s = Some s'"
    and regs: "g_regs s' = g_regs (stored D addr0 data s)"
    and ev: "events s' = events s @ debug_event E
          @ [RasterizerFlushRegion a1 l1, RasterizerFlushAndInvalidateRegion a2 l2] @ es
          @ [LOG_TRACE, SignalInterrupt PPF] @ traced D E addr0 data"
    using Write_texture_copy [OF assms] by blast
  have cell: "g_regs s' (dt_trigger (display_transfer_config D)) = ucast data"
    using assms(1) stored_fields(3) [of D addr0 data s] by (simp add: regs)
  have "fst (Read D U32 var addr0 s') = ucast (g_regs s' (reg_index D addr0))"
    using assms(1,2) by (simp add: Read_def Let_def reg_index_def)
  then show ?thesis
    using assms(1,5) by (simp add: w ev cell)
qed

theorem C4_texture_copy_keeps_trigger_witness:
  "read_back ex_regs 0x1EF00C18
     (Write ex_regs ex_hooks U32 0x1EF00C18 1
        (with_regs [(0x300, 0x20), (0x301, 0x40), (0x304, 8), (0x308, 64), (0x309, 2), (0x30A, 1)] zeroed))
   = Some 1
   \<and> map_option (\<lambda>s. last (events s)) (Write ex_regs ex_hooks U32 0x1EF00C18 1
        (with_regs [(0x300, 0x20), (0x301, 0x40), (0x304, 8), (0x308, 64), (0x309, 2), (0x30A, 1)] zeroed))
   = Some (SignalInterrupt PPF)"
  using C4_texture_copy_keeps_trigger [of ex_regs "0x1EF00C18" 1 ex_hooks
     "with_regs [(0x300, 0x20), (0x301, 0x40), (0x304, 8), (0x308, 64), (0x309, 2), (0x30A, 1)] zeroed" 0]
  by (simp add: read_back_def Read_def Write_def display_transfer_case_def display_transfer_software_def
      texture_copy_case_def texture_copy_loop.simps Let_def memory_fill_trigger_index_def ex_regs_def
      ex_hooks_def ex_transfer_def ex_texture_copy_def ex_command_def zeroed_def eval_bits emit_def)

text \<open>
  Claim C2: for every trigger write in display-transfer mode (the texture-copy flag is
  clear) on the software path whose configuration has a scaling mode beyond \<^verbatim>\<open>ScaleXY\<close>, or
  linear input together with a scaling mode other than \<^verbatim>\<open>NoScale\<close>, the operation stops as
  unimplemented before any cache flush and any memory write: memory is unchanged, the only
  events are the debugger's notification, the critical log entry, \<^verbatim>\<open>UNIMPLEMENTED()\<close> and
  the tracer's notification; no \<^verbatim>\<open>PPF\<close> is signalled and the trigger cell keeps the value
  written, with bit 0 set.
\<close>

theorem C2_unsupported_transfer_stops:
  assumes "reg_index D addr0 = dt_trigger (display_transfer_config D)"
    and "dt_trigger (display_transfer_config D) < NumIds D"
    and "dt_trigger (display_transfer_config D) \<noteq> memory_fill_trigger_index 0"
    and "dt_trigger (display_transfer_config D) \<noteq> memory_fill_trigger_index 1"
    and "ucast data AND (1::u32) \<noteq> 0"
    and "\<not> AccelerateDisplayTransfer E"
    and "Value (dt_is_texture_copy (display_transfer_config D))
           (transfer_flags D (stored D addr0 data s)) = 0"
    and "Value (dt_scaling (display_transfer_config D)) (transfer_flags D (stored D addr0 data s))
           > dt_ScaleXY (display_transfer_config D)
         \<or> (Value (dt_input_linear (display_transfer_config D))
               (transfer_flags D (stored D addr0 data s)) \<noteq> 0
            \<and> Value (dt_scaling (display_transfer_config D)) (transfer_flags D (stored D addr0 data s))
               \<noteq> dt_NoScale (display_transfer_config D))"
  shows "\<exists>s' es. Write D E U32 addr0 data s = Some s'
     \<and> memory s' = memory s
     \<and> events s' = events s @ es
     \<and> es = debug_event E @ [LOG_CRITICAL, UNIMPLEMENTED] @ traced D E addr0 data
     \<and> SignalInterrupt PPF \<notin> set es
     \<and> (\<forall>a l. RasterizerFlushRegion a l \<notin> set es \<and> RasterizerFlushAndInvalidateRegion a l \<notin> set es)
     \<and> g_regs s' (dt_trigger (display_transfer_config D)) = ucast data
     \<and> g_regs s' (dt_trigger (display_transfer_config D)) AND 1 \<noteq> 0"
proof -
  let ?s1 = "stored D addr0 data s"
  let ?s2 = "emit (debug_event E) ?s1"
  have trig: "g_regs ?s1 (dt_trigger (display_transfer_config D)) = ucast data"
    using assms(1) stored_fields(3) [of D addr0 data s] by simp
  have "display_transfer_software D E ?s2 = Some (Break (emit [LOG_CRITICAL, UNIMPLEMENTED] ?s2))"
    using assms(7,8) by (auto simp add: display_transfer_software_def Let_def transfer_flags_def)
  then have "display_transfer_case D E ?s1 = Some (emit [LOG_CRITICAL, UNIMPLEMENTED] ?s2)"
    using trig assms(5,6) by (simp add: display_case_software)
  then have w: "Write D E U32 addr0 data s =
      Some (emit (traced D E addr0 data) (emit [LOG_CRITICAL, UNIMPLEMENTED] ?s2))"
    using assms(1-4) by (simp add: Write_display)
  show ?thesis
    using trig assms(5) by (simp add: w) (simp add: debug_event_def traced_def)
qed

theorem C2_unsupported_transfer_stops_witness:
  "Write ex_regs ex_hooks U32 0x1EF00C18 1 (with_regs [(0x304, 0x1000002)] zeroed)
     = Some (emit [LOG_CRITICAL, UNIMPLEMENTED] (with_regs [(0x304, 0x1000002), (0x306, 1)] zeroed))
   \<and> Write ex_regs ex_hooks U32 0x1EF00C18 1 (with_regs [(0x304, 0x3000000)] zeroed)
     = Some (emit [LOG_CRITICAL, UNIMPLEMENTED] (with_regs [(0x304, 0x3000000), (0x306, 1)] zeroed))"
  using C2_unsupported_transfer_stops [of ex_regs "0x1EF00C18" 1 ex_hooks
      "with_regs [(0x304, 0x1000002)] zeroed"]
    C2_unsupported_transfer_stops [of ex_regs "0x1EF00C18" 1 ex_hooks
      "with_regs [(0x304, 0x3000000)] zeroed"]
  by (simp add: Write_def display_transfer_case_def display_transfer_software_def
      Let_def memory_fill_trigger_index_def ex_regs_def ex_hooks_def
      ex_transfer_def ex_texture_copy_def ex_command_def zeroed_def eval_bits emit_def)


subsection \<open>The vertical flip of the display transfer\<close>

text \<open>
  Claim C5: with the vertical-flip flag set, every pixel \<open>(x, y)\<close> of the transfer is
  written to the mirrored row \<open>output_height - y - 1\<close> while its source coordinates come
  from the unflipped position. The comment at the flip says the same, but the statement
  \<^verbatim>\<open>y = output_height - y - 1;\<close> assigns to the loop variable of the outer loop, inside the
  inner loop, so the flipped value is carried into the next iteration.

  A flipped linear-to-linear transfer of 1 by 2 pixels: the only iteration is the one at
  \<open>(0, 0)\<close>; it leaves \<open>y = 1\<close>, the increment of the outer loop makes it 2 and the loop
  ends. The pixel at \<open>(0, 1)\<close> is never transferred: the source bytes \<open>AA\<close> (row 0) and
  \<open>BB\<close> (row 1) should arrive as \<open>BB\<close> at \<open>0x200\<close> and \<open>AA\<close> at \<open>0x204\<close>, and only the
  latter does. This transfer of odd width is the failing input. The trace of a transfer of
  2 by 2 pixels is given beside it: the iteration at output position \<open>(1, 0)\<close> takes its
  source row from the flipped value 1 and writes to row 0, and the second assignment
  restores \<open>y\<close>, so that for an even width the pixels written are in the end those of a
  flip.
\<close>

theorem C5_flip_changes_loop_variable:
  "map_option events (Write ex_regs ex_hooks U32 0x1EF00C18 1
     (with_regs [(0x300, 0x20), (0x301, 0x40), (0x302, 0x20001), (0x303, 0x20001), (0x304, 0x23)]
        (zeroed\<lparr>memory := (\<lambda>a. 0)(0x100 := 0xAA, 0x104 := 0xBB)\<rparr>)))
   = Some [RasterizerFlushRegion 0x100 8, RasterizerFlushAndInvalidateRegion 0x200 8,
           Pixel 0 0 0 1, LOG_TRACE, SignalInterrupt PPF]
   \<and> bytes_after (Write ex_regs ex_hooks U32 0x1EF00C18 1
     (with_regs [(0x300, 0x20), (0x301, 0x40), (0x302, 0x20001), (0x303, 0x20001), (0x304, 0x23)]
        (zeroed\<lparr>memory := (\<lambda>a. 0)(0x100 := 0xAA, 0x104 := 0xBB)\<rparr>))) 0x200 8
   = [0, 0, 0, 0, 0xAA, 0, 0, 0]
   \<and> map_option events (Write ex_regs ex_hooks U32 0x1EF00C18 1
     (with_regs [(0x300, 0x20), (0x301, 0x40), (0x302, 0x20002), (0x303, 0x20002), (0x304, 0x23)] zeroed))
   = Some [RasterizerFlushRegion 0x100 16, RasterizerFlushAndInvalidateRegion 0x200 16,
           Pixel 0 0 0 1, Pixel 1 1 1 0, Pixel 0 1 0 0, Pixel 1 0 1 1, LOG_TRACE, SignalInterrupt PPF]"
  by (simp add: Write_def display_transfer_case_def display_transfer_software_def
      transfer_rows.simps transfer_pixel_def DecodePixel_def EncodePixel_def bytes_after_def upt_rec
      Let_def memory_fill_trigger_index_def ex_regs_def ex_hooks_def ex_bytes_per_pixel_def
      ex_transfer_def ex_texture_copy_def ex_command_def zeroed_def eval_bits emit_def)


end
